theory Spec2Isabelle
  imports Complex_Main "HOL-Library.Word"
begin

section \<open>Voice control of a media player: speaker verification and wake-word gating\<close>

text \<open>
  A shallow embedding of the class \<open>YouTubeVoiceControl\<close> of
  \<open>chrome-extension/content.js\<close>. JavaScript numbers are modelled as real numbers
  (\<open>Math.exp\<close> is \<open>exp\<close>, \<open>Math.sqrt\<close> is \<open>sqrt\<close>, \<open>Math.log\<close> is \<open>ln\<close>); the bytes of a
  \<open>Uint8Array\<close> are 8-bit words read as numbers. Console output and the DOM panels are
  not part of the model.
\<close>

subsection \<open>Data model\<close>

type_synonym byte = "8 word"

record formant =
  frequency :: real
  magnitude :: real

text \<open>The acoustic fields that a feature vector and a voiceprint have in common.\<close>

record acoustic =
  fundamentalFreq :: real
  formants :: "formant list"
  spectralCentroid :: real
  spectralRolloff :: real
  spectralFlux :: real
  spectralFlatness :: real
  mfcc :: "real list"
  zeroCrossingRate :: real
  energy :: real
  voicedRatio :: real
  harmonicRatio :: real

record features = acoustic +
  transcript :: string
  timestamp :: nat

record voiceprint = acoustic +
  fundamentalFreqStd :: real
  energyStd :: real
  spectralCentroidStd :: real
  sampleCount :: nat
  createdAt :: nat

record layer_result =
  name :: string
  score :: real
  passed :: bool
  weight :: real
  threshold :: real

text \<open>
  What a property read on the table \<open>contextThresholds\<close> of \<open>multiLayerVerification\<close>
  can yield: \<open>undefined\<close>, a number of the table, or a member inherited from
  \<open>Object.prototype\<close>, kept by its name.
\<close>

datatype property_value = Undefined | Num real | Member string

text \<open>
  The object returned by \<open>multiLayerVerification\<close>; its properties \<open>threshold\<close> and
  \<open>context\<close> are \<open>requiredThreshold\<close> and \<open>ctx\<close> here. The early return builds an object
  with four properties only; a property that is absent is \<open>None\<close>.
\<close>

record verification_result =
  isVerified :: bool
  confidence :: real
  passedLayers :: "nat option"
  totalLayers :: "nat option"
  requiredLayers :: "nat option"
  layers :: "layer_result list"
  requiredThreshold :: "property_value option"
  ctx :: "string option"
  reason :: "string option"

subsection \<open>Feature extraction\<close>

text \<open>
  What the analyser and the audio context deliver at one call of
  \<open>captureVoiceFeatures\<close>: the byte frequency data, the byte time-domain data and
  \<open>audioContext.sampleRate\<close>. The analyser yields at least one bin and the sample rate
  is positive; a quotient by zero, which is \<open>NaN\<close> or \<open>Infinity\<close> in the source, is 0
  in HOL.
\<close>

record frame =
  frequencyData :: "byte list"
  timeDomainData :: "byte list"
  sampleRate :: real

definition mag :: "byte \<Rightarrow> real" where
  "mag b = real (unat b)"

text \<open>
  \<open>a[i]\<close> on a typed array: \<open>undefined\<close> outside the array, and every comparison with
  \<open>undefined\<close> is false.
\<close>

definition read :: "byte list \<Rightarrow> int \<Rightarrow> real option" where
  "read a i = (if 0 \<le> i \<and> i < int (length a) then Some (mag (a ! nat i)) else None)"

definition gt :: "real option \<Rightarrow> real option \<Rightarrow> bool" where
  "gt x y = (case (x, y) of (Some a, Some b) \<Rightarrow> a > b | _ \<Rightarrow> False)"

record peak = formant +
  bin :: int

text \<open>
  \<open>extractFundamentalFrequency\<close>: the local maxima above 30 between the bins of 80 Hz
  and 400 Hz, sorted by decreasing magnitude (\<open>Array.prototype.sort\<close> is stable); the
  frequency of the first, or 0.
\<close>

definition extractFundamentalFrequency :: "real \<Rightarrow> byte list \<Rightarrow> real" where
  "extractFundamentalFrequency sampleRate' frequencyData' =
     (let nyquist = sampleRate' / 2;
          minF0 = 80;
          maxF0 = 400;
          n = real (length frequencyData');
          startBin = \<lfloor>minF0 * n / nyquist\<rfloor>;
          endBin = \<lfloor>maxF0 * n / nyquist\<rfloor>;
          peaks =
            map (\<lambda>i. \<lparr>frequency = real_of_int i * nyquist / n,
                       magnitude = (case read frequencyData' i of Some m \<Rightarrow> m | None \<Rightarrow> 0),
                       bin = i\<rparr>)
              (filter (\<lambda>i. gt (read frequencyData' i) (read frequencyData' (i - 1)) \<and>
                            gt (read frequencyData' i) (read frequencyData' (i + 1)) \<and>
                            gt (read frequencyData' i) (Some 30))
                 [startBin + 1 .. endBin - 2]);
          sorted' = sort_key (\<lambda>p. - magnitude p) peaks
      in case sorted' of [] \<Rightarrow> 0 | p # _ \<Rightarrow> frequency p)"

definition formantRanges :: "(real \<times> real) list" where
  "formantRanges = [(300, 1000), (800, 2500), (1500, 3500)]"

text \<open>\<open>extractFormants\<close>: in each range, the first bin of maximal magnitude.\<close>

definition extractFormants :: "real \<Rightarrow> byte list \<Rightarrow> formant list" where
  "extractFormants sampleRate' frequencyData' =
     (let nyquist = sampleRate' / 2;
          n = real (length frequencyData')
      in map (\<lambda>(rmin, rmax).
                let startBin = \<lfloor>rmin * n / nyquist\<rfloor>;
                    endBin = \<lfloor>rmax * n / nyquist\<rfloor>;
                    (maxMagnitude, maxBin) =
                      fold (\<lambda>i (maxMagnitude, maxBin).
                              case read frequencyData' i of
                                Some m \<Rightarrow> if m > maxMagnitude then (m, i) else (maxMagnitude, maxBin)
                              | None \<Rightarrow> (maxMagnitude, maxBin))
                        [startBin .. endBin - 1] (0, startBin)
                in \<lparr>frequency = real_of_int maxBin * nyquist / n, magnitude = maxMagnitude\<rparr>)
           formantRanges)"

definition calculateSpectralCentroid :: "real \<Rightarrow> byte list \<Rightarrow> real" where
  "calculateSpectralCentroid sampleRate' frequencyData' =
     (let n = length frequencyData';
          (numerator, denominator) =
            fold (\<lambda>i (numerator, denominator).
                    let freq = real i * (sampleRate' / 2) / real n
                    in (numerator + freq * mag (frequencyData' ! i),
                        denominator + mag (frequencyData' ! i)))
              [0..<n] (0, 0)
      in if denominator > 0 then numerator / denominator else 0)"

text \<open>
  The loop of \<open>calculateSpectralRolloff\<close>, which returns from inside at the first bin
  where the cumulative magnitude reaches the threshold.
\<close>

fun rolloff_loop :: "real \<Rightarrow> byte list \<Rightarrow> real \<Rightarrow> nat list \<Rightarrow> real \<Rightarrow> real" where
  "rolloff_loop sampleRate' frequencyData' threshold' [] cumulativeEnergy = 0"
| "rolloff_loop sampleRate' frequencyData' threshold' (i # is) cumulativeEnergy =
     (let cumulativeEnergy = cumulativeEnergy + mag (frequencyData' ! i)
      in if cumulativeEnergy \<ge> threshold'
         then real i * (sampleRate' / 2) / real (length frequencyData')
         else rolloff_loop sampleRate' frequencyData' threshold' is cumulativeEnergy)"

definition calculateSpectralRolloff :: "real \<Rightarrow> byte list \<Rightarrow> real" where
  "calculateSpectralRolloff sampleRate' frequencyData' =
     (let totalEnergy = foldl (\<lambda>sum val. sum + mag val) 0 frequencyData';
          threshold' = totalEnergy * 0.85
      in rolloff_loop sampleRate' frequencyData' threshold' [0..<length frequencyData'] 0)"

definition calculateMFCC :: "byte list \<Rightarrow> real list" where
  "calculateMFCC frequencyData' =
     (let melBands = 13;
          n = length frequencyData'
      in map (\<lambda>m.
                let start = nat \<lfloor>real m * real n / real melBands\<rfloor>;
                    end' = nat \<lfloor>real (m + 1) * real n / real melBands\<rfloor>;
                    sum = fold (\<lambda>i sum. sum + mag (frequencyData' ! i)) [start..<end'] 0
                in ln (sum + 1))
           [0..<melBands])"

definition calculateZeroCrossingRate :: "byte list \<Rightarrow> real" where
  "calculateZeroCrossingRate timeDomainData' =
     (let midpoint = 128;
          crossings =
            fold (\<lambda>i crossings.
                    if (mag (timeDomainData' ! (i - 1)) - midpoint) *
                       (mag (timeDomainData' ! i) - midpoint) < 0
                    then crossings + 1 else crossings)
              [1..<length timeDomainData'] (0::nat)
      in real crossings / real (length timeDomainData'))"

definition calculateEnergy :: "byte list \<Rightarrow> real" where
  "calculateEnergy timeDomainData' =
     (let energy' =
            fold (\<lambda>i energy'.
                    let sample = (mag (timeDomainData' ! i) - 128) / 128
                    in energy' + sample * sample)
              [0..<length timeDomainData'] 0
      in energy' / real (length timeDomainData'))"

definition calculateSpectralFlux :: "byte list \<Rightarrow> real" where
  "calculateSpectralFlux frequencyData' =
     (let flux =
            fold (\<lambda>i flux.
                    let diff = mag (frequencyData' ! i) - mag (frequencyData' ! (i - 1))
                    in flux + diff * diff)
              [1..<length frequencyData'] 0
      in sqrt (flux / real (length frequencyData')))"

text \<open>
  The body of the loop of \<open>calculateSpectralFlatness\<close> for one bin: a nonzero bin
  multiplies \<open>geometricMean\<close> by \<open>Math.pow(frequencyData[i], 1.0 / frequencyData.length)\<close>,
  adds to \<open>arithmeticMean\<close> and is counted.
\<close>

definition flatness_step :: "nat \<Rightarrow> byte \<Rightarrow> real \<times> real \<times> nat \<Rightarrow> real \<times> real \<times> nat" where
  "flatness_step n b =
     (\<lambda>(geometricMean, arithmeticMean, count).
        if mag b > 0
        then (geometricMean * mag b powr (1.0 / real n), arithmeticMean + mag b, count + 1)
        else (geometricMean, arithmeticMean, count))"

text \<open>\<open>calculateSpectralFlatness\<close>. The loop starts at bin 1.\<close>

definition calculateSpectralFlatness :: "byte list \<Rightarrow> real" where
  "calculateSpectralFlatness frequencyData' =
     (let (geometricMean, arithmeticMean, count) =
            fold (\<lambda>i. flatness_step (length frequencyData') (frequencyData' ! i))
              [1..<length frequencyData'] (1, 0, 0::nat);
          arithmeticMean = arithmeticMean / real count
      in if count > 0 then geometricMean / arithmeticMean else 0)"

definition calculateVoicedRatio :: "real \<Rightarrow> byte list \<Rightarrow> real" where
  "calculateVoicedRatio sampleRate' frequencyData' =
     (let nyquist = sampleRate' / 2;
          (harmonicEnergy, totalEnergy) =
            fold (\<lambda>i (harmonicEnergy, totalEnergy).
                    let freq = real i * nyquist / real (length frequencyData');
                        totalEnergy = totalEnergy + mag (frequencyData' ! i)
                    in if freq \<ge> 100 \<and> freq \<le> 1000
                       then (harmonicEnergy + mag (frequencyData' ! i), totalEnergy)
                       else (harmonicEnergy, totalEnergy))
              [0..<length frequencyData'] (0, 0)
      in if totalEnergy > 0 then harmonicEnergy / totalEnergy else 0)"

text \<open>
  The harmonic loop of \<open>calculateHarmonicRatio\<close>, with its \<open>break\<close> above the Nyquist
  frequency. \<open>Math.round\<close> rounds halves up, as \<^const>\<open>round\<close> does.
\<close>

fun harmonic_loop :: "real \<Rightarrow> real \<Rightarrow> byte list \<Rightarrow> nat list \<Rightarrow> real \<Rightarrow> real" where
  "harmonic_loop f0 nyquist frequencyData' [] harmonicSum = harmonicSum"
| "harmonic_loop f0 nyquist frequencyData' (harmonic # hs) harmonicSum =
     (let harmonicFreq = f0 * real harmonic
      in if harmonicFreq > nyquist then harmonicSum
         else
           let bin' = round (harmonicFreq * real (length frequencyData') / nyquist)
           in harmonic_loop f0 nyquist frequencyData' hs
                (if bin' < int (length frequencyData')
                 then (case read frequencyData' bin' of
                         Some m \<Rightarrow> harmonicSum + m | None \<Rightarrow> harmonicSum)
                 else harmonicSum))"

definition calculateHarmonicRatio :: "real \<Rightarrow> byte list \<Rightarrow> real" where
  "calculateHarmonicRatio sampleRate' frequencyData' =
     (let f0 = extractFundamentalFrequency sampleRate' frequencyData'
      in if f0 < 50 then 0
         else
           let nyquist = sampleRate' / 2;
               harmonicSum = harmonic_loop f0 nyquist frequencyData' [1..<9] 0;
               totalSum = fold (\<lambda>i totalSum. totalSum + mag (frequencyData' ! i))
                            [0..<length frequencyData'] 0
           in if totalSum > 0 then harmonicSum / totalSum else 0)"

text \<open>
  The object literal of \<open>captureVoiceFeatures\<close>: the eleven acoustic features of a
  frame, the transcript argument and \<open>Date.now()\<close>.
\<close>

definition extract_features :: "frame \<Rightarrow> string \<Rightarrow> nat \<Rightarrow> features" where
  "extract_features fr transcript' now =
     \<lparr>fundamentalFreq = extractFundamentalFrequency (sampleRate fr) (frequencyData fr),
      formants = extractFormants (sampleRate fr) (frequencyData fr),
      spectralCentroid = calculateSpectralCentroid (sampleRate fr) (frequencyData fr),
      spectralRolloff = calculateSpectralRolloff (sampleRate fr) (frequencyData fr),
      spectralFlux = calculateSpectralFlux (frequencyData fr),
      spectralFlatness = calculateSpectralFlatness (frequencyData fr),
      mfcc = calculateMFCC (frequencyData fr),
      zeroCrossingRate = calculateZeroCrossingRate (timeDomainData fr),
      energy = calculateEnergy (timeDomainData fr),
      voicedRatio = calculateVoicedRatio (sampleRate fr) (frequencyData fr),
      harmonicRatio = calculateHarmonicRatio (sampleRate fr) (frequencyData fr),
      transcript = transcript',
      timestamp = now\<rparr>"

subsection \<open>Strings\<close>

text \<open>
  Strings are lists of characters. The text handled here is ASCII: \<open>toLowerCase\<close> maps
  \<open>A\<close>-\<open>Z\<close>, and white space (for \<open>trim\<close> and the pattern \<open>\s\<close>) is the space and the
  control characters 9 to 13.
\<close>

definition is_space :: "char \<Rightarrow> bool" where
  "is_space c = (let n = (of_char c :: nat) in n = 32 \<or> (9 \<le> n \<and> n \<le> 13))"

definition trim :: "string \<Rightarrow> string" where
  "trim s = rev (dropWhile is_space (rev (dropWhile is_space s)))"

definition toLowerCase :: "string \<Rightarrow> string" where
  "toLowerCase s =
     map (\<lambda>c. let n = (of_char c :: nat) in if 65 \<le> n \<and> n \<le> 90 then char_of (n + 32) else c) s"

definition starts_with :: "string \<Rightarrow> string \<Rightarrow> bool" where
  "starts_with s p = (take (length p) s = p)"

text \<open>\<open>s.includes(p)\<close>.\<close>

fun str_includes :: "string \<Rightarrow> string \<Rightarrow> bool" where
  "str_includes [] p = (p = [])"
| "str_includes (c # cs) p = (starts_with (c # cs) p \<or> str_includes cs p)"

text \<open>\<open>s.replace(p, r)\<close> for a string pattern: the first occurrence only.\<close>

fun replace_first :: "string \<Rightarrow> string \<Rightarrow> string \<Rightarrow> string" where
  "replace_first [] p r = (if p = [] then r else [])"
| "replace_first (c # cs) p r =
     (if starts_with (c # cs) p then r @ drop (length p) (c # cs)
      else c # replace_first cs p r)"

text \<open>
  \<open>s.split(/\s+/).length\<close>: one more than the number of maximal runs of white
  space; \<open>inRun\<close> says whether the previous character was white space.
\<close>

fun ws_runs :: "bool \<Rightarrow> string \<Rightarrow> nat" where
  "ws_runs inRun [] = 0"
| "ws_runs inRun (c # cs) =
     (if is_space c then (if inRun then 0 else 1) + ws_runs True cs
      else ws_runs False cs)"

definition split_ws_length :: "string \<Rightarrow> nat" where
  "split_ws_length s = 1 + ws_runs False s"

subsection \<open>Phrase similarity\<close>

text \<open>
  \<open>levenshteinDistance\<close> fills a matrix row by row. \<open>lev_row\<close> computes the cells
  \<open>matrix[j][i..]\<close> of one row from the character \<open>str2[j - 1]\<close>, the rest of
  \<open>str1\<close>, the cells \<open>matrix[j - 1][i - 1..]\<close> of the previous row and the cell
  \<open>matrix[j][i - 1]\<close> to the left.
\<close>

fun lev_row :: "char \<Rightarrow> string \<Rightarrow> nat list \<Rightarrow> nat \<Rightarrow> nat list" where
  "lev_row c2 (c1 # cs) (diag # up # prev) left =
     (let substitutionCost = (if c1 = c2 then 0 else 1);
          cell = min (min (left + 1) (up + 1)) (diag + substitutionCost)
      in cell # lev_row c2 cs (up # prev) cell)"
| "lev_row c2 _ _ left = []"

text \<open>The rows for the characters of \<open>str2\<close>; \<open>j\<close> is the row index, so \<open>matrix[j][0] = j\<close>.\<close>

fun lev_rows :: "string \<Rightarrow> string \<Rightarrow> nat \<Rightarrow> nat list \<Rightarrow> nat list" where
  "lev_rows str1 [] j prev = prev"
| "lev_rows str1 (c2 # cs2) j prev = lev_rows str1 cs2 (j + 1) (j # lev_row c2 str1 prev j)"

definition levenshteinDistance :: "string \<Rightarrow> string \<Rightarrow> nat" where
  "levenshteinDistance str1 str2 = last (lev_rows str1 str2 1 [0..<length str1 + 1])"

definition calculateCER :: "string \<Rightarrow> string \<Rightarrow> real" where
  "calculateCER spoken expected =
     (let distance = levenshteinDistance spoken expected;
          cer = real distance / real (max (length expected) 1)
      in min cer 1.0)"

definition calculatePhraseSimilarity :: "string \<Rightarrow> string \<Rightarrow> real" where
  "calculatePhraseSimilarity spoken expected =
     (let cer = calculateCER (trim (toLowerCase spoken)) (trim (toLowerCase expected));
          similarity = 1 - cer
      in similarity)"

subsection \<open>The state of the controller\<close>

text \<open>
  A callback handed to \<open>setTimeout\<close> or \<open>setInterval\<close>, named after the method it
  calls or the timer it belongs to.
\<close>

datatype callback =
    CbStartListening
  | CbResetWakeWord
  | CbInitializeEnrollment
  | CbContinueEnrollment
  | CbStartEnrollmentListening
  | CbAdvanceEnrollment
  | CbCountdownTick
  | CbEnrollmentTimeout
  | CbProcessingTimeout
  | CbHideTrainingPanel
  | CbRemoveTrainingPanel
  | CbUpdateOverlayStatus
  | CbResumeNormalOperation

record timer =
  tid :: nat
  delay :: nat
  repeating :: bool
  callback :: callback

text \<open>
  A \<open>SpeechRecognition\<close> object: created, started by \<open>start()\<close>, asked to stop by
  \<open>stop()\<close>, ended.
\<close>

datatype session = Created | Running | Stopping | Ended

text \<open>
  The fields of \<open>YouTubeVoiceControl\<close> that the modelled methods use, and with them:
  the volume of the page's video element (\<open>None\<close> when
  \<open>document.querySelector('video')\<close> finds none), whether the analyser exists, the
  browser's pending timers, the record saved in \<open>localStorage\<close>, and the variables
  \<open>enrollmentTimeout\<close>, \<open>hasGotResult\<close> and \<open>timeLeft\<close> local to the current call of
  \<open>startEnrollmentListening\<close>, which its handlers share.
\<close>

record vc_state =
  recognition :: "session option"
  isListening :: bool
  isActive :: bool
  restartTimeout :: "nat option"
  wakeWordDetected :: bool
  wakeWordTimeout :: "nat option"
  originalVolume :: real
  isDucking :: bool
  analyser :: bool
  voiceDetectionActive :: bool
  enrollmentMode :: bool
  voiceprint :: "voiceprint option"
  enrollmentSamples :: "features list"
  enrollmentPhraseMatched :: bool
  currentEnrollmentPhrase :: nat
  samplesPerPhrase :: nat
  currentSampleCount :: nat
  enrollmentRecognition :: "session option"
  enrollmentCountdownInterval :: "nat option"
  processingTimeout :: "nat option"
  enrollmentTimeout :: "nat option"
  hasGotResult :: bool
  timeLeft :: int
  trainingPanel :: bool
  videoVolume :: "real option"
  timers :: "timer list"
  nextTimerId :: nat
  savedVoiceprint :: "(voiceprint \<times> features list) option"

text \<open>
  The fields \<open>wakeWordWindow\<close>, \<open>duckingVolume\<close> and \<open>enrollmentPhrases\<close> are set by the
  constructor and never assigned again.
\<close>

definition wakeWordWindow :: nat where
  "wakeWordWindow = 4000"

definition duckingVolume :: real where
  "duckingVolume = 0.05"

definition enrollmentPhrases :: "string list" where
  "enrollmentPhrases =
     [''YouTube pause'', ''YouTube play'', ''YouTube stop'', ''YouTube resume'',
      ''YouTube mute'', ''YouTube unmute'',
      ''YouTube skip'', ''YouTube back'', ''YouTube forward'', ''YouTube restart'',
      ''YouTube faster'', ''YouTube slower'',
      ''YouTube louder'', ''YouTube quieter'',
      ''YouTube go to 30 seconds'', ''YouTube jump to 2 minutes'', ''YouTube seek 1 hour'',
      ''YouTube find introduction'', ''YouTube search tutorial'']"

subsection \<open>Timers\<close>

text \<open>Timer handles are positive and are never reused.\<close>

definition setTimeout :: "callback \<Rightarrow> nat \<Rightarrow> vc_state \<Rightarrow> nat \<times> vc_state" where
  "setTimeout cb ms s =
     (nextTimerId s,
      s\<lparr>timers := timers s @ [\<lparr>tid = nextTimerId s, delay = ms, repeating = False, callback = cb\<rparr>],
        nextTimerId := nextTimerId s + 1\<rparr>)"

definition setInterval :: "callback \<Rightarrow> nat \<Rightarrow> vc_state \<Rightarrow> nat \<times> vc_state" where
  "setInterval cb ms s =
     (nextTimerId s,
      s\<lparr>timers := timers s @ [\<lparr>tid = nextTimerId s, delay = ms, repeating = True, callback = cb\<rparr>],
        nextTimerId := nextTimerId s + 1\<rparr>)"

text \<open>
  \<open>clearTimeout(h)\<close> and \<open>clearInterval(h)\<close>; a handle that is \<open>null\<close> or
  \<open>undefined\<close> clears nothing.
\<close>

definition clearTimeout :: "nat option \<Rightarrow> vc_state \<Rightarrow> vc_state" where
  "clearTimeout h s =
     (case h of None \<Rightarrow> s | Some t \<Rightarrow> s\<lparr>timers := filter (\<lambda>x. tid x \<noteq> t) (timers s)\<rparr>)"

text \<open>The browser takes a timeout from the pending timers when it runs its callback.\<close>

definition timeout_fires :: "nat \<Rightarrow> vc_state \<Rightarrow> vc_state" where
  "timeout_fires t s = s\<lparr>timers := filter (\<lambda>x. if tid x = t then repeating x else True) (timers s)\<rparr>"

text \<open>\<open>stop()\<close> on a recognition object: a running session is asked to stop.\<close>

definition stop :: "session option \<Rightarrow> session option" where
  "stop r = (case r of Some Running \<Rightarrow> Some Stopping | _ \<Rightarrow> r)"

subsection \<open>Audio ducking\<close>

definition duckAudio :: "bool \<Rightarrow> vc_state \<Rightarrow> vc_state" where
  "duckAudio enable s =
     (case videoVolume s of
        None \<Rightarrow> s
      | Some volume \<Rightarrow>
          if enable \<and> \<not> isDucking s
          then s\<lparr>originalVolume := volume, videoVolume := Some duckingVolume, isDucking := True\<rparr>
          else if \<not> enable \<and> isDucking s
          then s\<lparr>videoVolume := Some (originalVolume s), isDucking := False\<rparr>
          else s)"

subsection \<open>Capturing a feature vector\<close>

text \<open>
  \<open>captureVoiceFeatures(transcript, isEnrollment)\<close>, with the frame that the analyser
  delivers and the value of \<open>Date.now()\<close>. It returns \<open>null\<close> when there is no analyser.
\<close>

definition captureVoiceFeatures ::
  "frame \<Rightarrow> nat \<Rightarrow> string \<Rightarrow> bool \<Rightarrow> vc_state \<Rightarrow> features option \<times> vc_state" where
  "captureVoiceFeatures fr now transcript' isEnrollment s =
     (if \<not> analyser s then (None, s)
      else
        let features' = extract_features fr transcript' now
        in if isEnrollment
           then (Some features', s\<lparr>enrollmentSamples := enrollmentSamples s @ [features']\<rparr>)
           else (Some features', s))"

subsection \<open>Similarity layers\<close>

text \<open>
  \<open>calculateFrequencySimilarity(currentF0, voiceprintF0, stdDev)\<close>: a zero operand
  scores 0; otherwise the clamped Gaussian of the difference, with a tolerance of at
  least 20 Hz.
\<close>

definition calculateFrequencySimilarity :: "real \<Rightarrow> real \<Rightarrow> real \<Rightarrow> real" where
  "calculateFrequencySimilarity currentF0 voiceprintF0 stdDev =
     (if currentF0 = 0 \<or> voiceprintF0 = 0 then 0
      else
        let difference = \<bar>currentF0 - voiceprintF0\<bar>;
            tolerance = max (stdDev * 2) 20;
            similarity = exp (- ((difference / tolerance)\<^sup>2))
        in max 0 (min 1 similarity))"

definition formantWeights :: "real list" where
  "formantWeights = [0.4, 0.4, 0.2]"

text \<open>
  The loop of \<open>calculateFormantSimilarity\<close>, walking the two formant lists and the
  weight table together. A pair with a zero frequency is skipped (\<open>continue\<close>) and its
  weight is lost. The weight table has three entries and a formant list has three
  slots (\<open>extractFormants\<close> and \<open>averageFormants\<close> build three); the loop of the
  model ends with the table.
\<close>

fun formant_loop :: "formant list \<Rightarrow> formant list \<Rightarrow> real list \<Rightarrow> real \<Rightarrow> real" where
  "formant_loop (c # cs) (v # vs) (w # ws) totalSimilarity =
     (let currentFreq = frequency c; voiceprintFreq = frequency v
      in if currentFreq = 0 \<or> voiceprintFreq = 0 then formant_loop cs vs ws totalSimilarity
         else
           let difference = \<bar>currentFreq - voiceprintFreq\<bar>;
               tolerance = voiceprintFreq * 0.15;
               similarity = exp (- ((difference / tolerance)\<^sup>2))
           in formant_loop cs vs ws (totalSimilarity + similarity * w))"
| "formant_loop _ _ _ totalSimilarity = totalSimilarity"

definition calculateFormantSimilarity :: "formant list \<Rightarrow> formant list \<Rightarrow> real" where
  "calculateFormantSimilarity currentFormants voiceprintFormants =
     (if length currentFormants = length voiceprintFormants
      then max 0 (min 1 (formant_loop currentFormants voiceprintFormants formantWeights 0))
      else 0)"

text \<open>
  The loop of \<open>calculateSpectralSimilarity\<close> over its table of (current, voiceprint,
  tolerance) entries; an entry with an exact-zero operand is skipped. It returns
  \<open>totalSimilarity\<close> and \<open>validFeatures\<close>.
\<close>

fun spectral_loop :: "(real \<times> real \<times> real) list \<Rightarrow> real \<times> nat \<Rightarrow> real \<times> nat" where
  "spectral_loop [] acc = acc"
| "spectral_loop ((current, vprint, tolerance) # fs) (totalSimilarity, validFeatures) =
     (if current = 0 \<or> vprint = 0
      then spectral_loop fs (totalSimilarity, validFeatures)
      else
        let difference = \<bar>current - vprint\<bar>;
            similarity = exp (- ((difference / tolerance)\<^sup>2))
        in spectral_loop fs (totalSimilarity + similarity, validFeatures + 1))"

definition calculateSpectralSimilarity :: "'a voiceprint_scheme \<Rightarrow> 'b features_scheme \<Rightarrow> real" where
  "calculateSpectralSimilarity vp currentFeatures =
     (let spectralFeatures =
            [(spectralCentroid currentFeatures, spectralCentroid vp, 500),
             (spectralRolloff currentFeatures, spectralRolloff vp, 1000),
             (spectralFlux currentFeatures, spectralFlux vp, 10),
             (spectralFlatness currentFeatures, spectralFlatness vp, 0.1)];
          (totalSimilarity, validFeatures) = spectral_loop spectralFeatures (0, 0)
      in if validFeatures > 0 then totalSimilarity / real validFeatures else 0)"

text \<open>The loop of \<open>calculateVoiceSimilarity\<close>; no entry is skipped.\<close>

fun voice_loop :: "(real \<times> real \<times> real) list \<Rightarrow> real \<times> nat \<Rightarrow> real \<times> nat" where
  "voice_loop [] acc = acc"
| "voice_loop ((current, vprint, tolerance) # fs) (totalSimilarity, validFeatures) =
     (let difference = \<bar>current - vprint\<bar>;
          similarity = exp (- ((difference / tolerance)\<^sup>2))
      in voice_loop fs (totalSimilarity + similarity, validFeatures + 1))"

definition calculateVoiceSimilarity :: "'a voiceprint_scheme \<Rightarrow> 'b features_scheme \<Rightarrow> real" where
  "calculateVoiceSimilarity vp currentFeatures =
     (let voiceFeatures =
            [(voicedRatio currentFeatures, voicedRatio vp, 0.2),
             (harmonicRatio currentFeatures, harmonicRatio vp, 0.2),
             (zeroCrossingRate currentFeatures, zeroCrossingRate vp, 0.05)];
          (totalSimilarity, validFeatures) = voice_loop voiceFeatures (0, 0)
      in if validFeatures > 0 then totalSimilarity / real validFeatures else 0)"

text \<open>
  \<open>verifyEnergyPattern\<close>. \<open>this.voiceprint.energyStd || 0.1\<close> replaces a zero
  deviation by 0.1.
\<close>

definition verifyEnergyPattern :: "'a voiceprint_scheme \<Rightarrow> 'b features_scheme \<Rightarrow> real" where
  "verifyEnergyPattern vp currentFeatures =
     (let currentEnergy = energy currentFeatures;
          voiceprintEnergy = energy vp;
          energyStd' = (if energyStd vp = 0 then 0.1 else energyStd vp)
      in if currentEnergy = 0 \<or> voiceprintEnergy = 0 then 0
         else
           let energyDiff = \<bar>currentEnergy - voiceprintEnergy\<bar>;
               tolerance = max (energyStd' * 2) 0.05;
               energySimilarity = exp (- ((energyDiff / tolerance)\<^sup>2));
               zcrDiff = \<bar>zeroCrossingRate currentFeatures - zeroCrossingRate vp\<bar>;
               zcrTolerance = 0.05;
               zcrSimilarity = exp (- ((zcrDiff / zcrTolerance)\<^sup>2))
           in energySimilarity * 0.6 + zcrSimilarity * 0.4)"

subsection \<open>Five-layer verification\<close>

text \<open>The table \<open>layers\<close> of \<open>multiLayerVerification\<close>.\<close>

record layer =
  layer_name :: string
  layer_weight :: real
  layer_threshold :: real

definition layer_table :: "layer list" where
  "layer_table =
     [\<lparr>layer_name = ''Energy Pattern'', layer_weight = 0.15, layer_threshold = 0.4\<rparr>,
      \<lparr>layer_name = ''Fundamental Frequency'', layer_weight = 0.25, layer_threshold = 0.5\<rparr>,
      \<lparr>layer_name = ''Formant Structure'', layer_weight = 0.25, layer_threshold = 0.45\<rparr>,
      \<lparr>layer_name = ''Spectral Signature'', layer_weight = 0.20, layer_threshold = 0.4\<rparr>,
      \<lparr>layer_name = ''Voice Characteristics'', layer_weight = 0.15, layer_threshold = 0.45\<rparr>]"

definition contextThresholds :: "(string \<times> real) list" where
  "contextThresholds = [(''wake_word'', 0.45), (''command'', 0.40), (''general'', 0.35)]"

text \<open>
  \<open>contextThresholds\<close> is an object literal, so a property read on it finds, besides its
  three own keys, the members it inherits from \<open>Object.prototype\<close>: eleven functions and
  the accessor \<open>__proto__\<close>, which yields the prototype object. Any other name reads as
  \<open>undefined\<close>.
\<close>

definition objectPrototype :: "string list" where
  "objectPrototype =
     [''constructor'', ''hasOwnProperty'', ''isPrototypeOf'', ''propertyIsEnumerable'',
      ''toLocaleString'', ''toString'', ''valueOf'', ''__proto__'', ''__defineGetter__'',
      ''__defineSetter__'', ''__lookupGetter__'', ''__lookupSetter__'']"

definition property :: "(string \<times> real) list \<Rightarrow> string \<Rightarrow> property_value" where
  "property obj key =
     (case map_of obj key of
        Some t \<Rightarrow> Num t
      | None \<Rightarrow> if key \<in> set objectPrototype then Member key else Undefined)"

text \<open>
  Of these values \<open>undefined\<close> and the number 0 are falsy; \<open>a || b\<close> is \<open>a\<close> when \<open>a\<close> is
  truthy and \<open>b\<close> otherwise.
\<close>

fun truthy :: "property_value \<Rightarrow> bool" where
  "truthy Undefined = False"
| "truthy (Num t) = (t \<noteq> 0)"
| "truthy (Member _) = True"

definition or_else :: "property_value \<Rightarrow> property_value \<Rightarrow> property_value" where
  "or_else a b = (if truthy a then a else b)"

text \<open>
  \<open>x >= v\<close> for a number \<open>x\<close>: \<open>undefined\<close>, a function and the prototype object convert
  to \<open>NaN\<close>, and a comparison with \<open>NaN\<close> is false.
\<close>

fun at_least :: "real \<Rightarrow> property_value \<Rightarrow> bool" where
  "at_least x (Num t) = (x \<ge> t)"
| "at_least x Undefined = False"
| "at_least x (Member _) = False"

text \<open>\<open>contextThresholds[context] || contextThresholds['general']\<close>.\<close>

definition required_threshold :: "string \<Rightarrow> property_value" where
  "required_threshold context' =
     or_else (property contextThresholds context') (property contextThresholds ''general'')"

text \<open>One \<open>layerResults.push\<close>: the entry for a layer of the table and its score.\<close>

definition layer_entry :: "layer \<Rightarrow> real \<Rightarrow> layer_result" where
  "layer_entry l s =
     \<lparr>name = layer_name l, score = s, passed = (s \<ge> layer_threshold l),
      weight = layer_weight l, threshold = layer_threshold l\<rparr>"

text \<open>
  \<open>multiLayerVerification(currentFeatures, context = 'general')\<close>. An omitted context
  argument is \<open>None\<close>. The method reads \<open>this.voiceprint\<close> and assigns to no field.
\<close>

definition multiLayerVerification ::
  "features option \<Rightarrow> string option \<Rightarrow> vc_state \<Rightarrow> verification_result \<times> vc_state" where
  "multiLayerVerification cfo contextArg s =
     (case (voiceprint s, cfo) of
        (Some vp, Some currentFeatures) \<Rightarrow>
          let context' = (case contextArg of None \<Rightarrow> ''general'' | Some c \<Rightarrow> c);
              layers' = layer_table;
              energyScore = verifyEnergyPattern vp currentFeatures;
              totalWeightedScore = 0 + energyScore * layer_weight (layers' ! 0);
              totalWeight = 0 + layer_weight (layers' ! 0);
              f0Score = calculateFrequencySimilarity (fundamentalFreq currentFeatures)
                          (fundamentalFreq vp) (fundamentalFreqStd vp);
              totalWeightedScore = totalWeightedScore + f0Score * layer_weight (layers' ! 1);
              totalWeight = totalWeight + layer_weight (layers' ! 1);
              formantScore = calculateFormantSimilarity (formants currentFeatures) (formants vp);
              totalWeightedScore = totalWeightedScore + formantScore * layer_weight (layers' ! 2);
              totalWeight = totalWeight + layer_weight (layers' ! 2);
              spectralScore = calculateSpectralSimilarity vp currentFeatures;
              totalWeightedScore = totalWeightedScore + spectralScore * layer_weight (layers' ! 3);
              totalWeight = totalWeight + layer_weight (layers' ! 3);
              voiceScore = calculateVoiceSimilarity vp currentFeatures;
              totalWeightedScore = totalWeightedScore + voiceScore * layer_weight (layers' ! 4);
              totalWeight = totalWeight + layer_weight (layers' ! 4);
              layerResults =
                [layer_entry (layers' ! 0) energyScore,
                 layer_entry (layers' ! 1) f0Score,
                 layer_entry (layers' ! 2) formantScore,
                 layer_entry (layers' ! 3) spectralScore,
                 layer_entry (layers' ! 4) voiceScore];
              overallConfidence =
                (if totalWeight > 0 then totalWeightedScore / totalWeight else 0);
              requiredThreshold' = required_threshold context';
              passedLayers' = length (filter passed layerResults);
              requiredLayers' = nat \<lceil>real (length layers') * 0.4\<rceil>;
              isVerified' =
                (at_least overallConfidence requiredThreshold'
                 \<and> passedLayers' \<ge> requiredLayers')
          in (\<lparr>isVerified = isVerified',
              confidence = overallConfidence,
              passedLayers = Some passedLayers',
              totalLayers = Some (length layers'),
              requiredLayers = Some requiredLayers',
              layers = layerResults,
              requiredThreshold = Some requiredThreshold',
              ctx = Some context',
              reason = None\<rparr>, s)
      | _ \<Rightarrow>
          (\<lparr>isVerified = False, confidence = 0,
            passedLayers = None, totalLayers = None, requiredLayers = None,
            layers = [],
            requiredThreshold = None, ctx = None,
            reason = Some ''No voiceprint available''\<rparr>, s))"

subsection \<open>Wake word and command window\<close>

definition resetWakeWord :: "vc_state \<Rightarrow> vc_state" where
  "resetWakeWord s =
     (let s = s\<lparr>wakeWordDetected := False\<rparr>;
          s = duckAudio False s
      in case wakeWordTimeout s of
           Some t \<Rightarrow> (clearTimeout (Some t) s)\<lparr>wakeWordTimeout := None\<rparr>
         | None \<Rightarrow> s)"

text \<open>
  The command dispatcher (\<open>extractCommands\<close> and \<open>executeCommand\<close>) is a parameter of
  the model: \<open>None\<close> when no command is recognised in the text, otherwise the state
  after the command has run.
\<close>

type_synonym dispatcher = "string \<Rightarrow> vc_state \<Rightarrow> vc_state option"

definition processCommand ::
  "dispatcher \<Rightarrow> frame \<Rightarrow> nat \<Rightarrow> string \<Rightarrow> vc_state \<Rightarrow> vc_state" where
  "processCommand dispatch fr now transcript' s =
     (if \<not> wakeWordDetected s then s
      else
        let (verified, s) =
              (case voiceprint s of
                 Some vp \<Rightarrow>
                   let (currentFeatures, s) = captureVoiceFeatures fr now transcript' False s;
                       (verification, s) =
                         multiLayerVerification currentFeatures (Some ''command'') s
                   in (isVerified verification, s)
               | None \<Rightarrow> (True, s))
        in if \<not> verified then resetWakeWord s
           else (case dispatch transcript' s of
                   None \<Rightarrow> resetWakeWord s
                 | Some s' \<Rightarrow> resetWakeWord s'))"

text \<open>
  \<open>processWakeWord\<close>. The frame \<open>fr\<close> and the time \<open>now\<close> are what its own call of
  \<open>captureVoiceFeatures\<close> reads; \<open>fr2\<close> and \<open>now2\<close> are what the call inside
  \<open>processCommand\<close> reads when the command is in the same utterance.
\<close>

definition processWakeWord ::
  "dispatcher \<Rightarrow> frame \<Rightarrow> nat \<Rightarrow> frame \<Rightarrow> nat \<Rightarrow> string \<Rightarrow> vc_state \<Rightarrow> vc_state" where
  "processWakeWord dispatch fr now fr2 now2 transcript' s =
     (if str_includes transcript' ''youtube''
      then
        let (verified, s) =
              (case voiceprint s of
                 Some vp \<Rightarrow>
                   let (currentFeatures, s) = captureVoiceFeatures fr now transcript' False s;
                       (verification, s) =
                         multiLayerVerification currentFeatures (Some ''wake_word'') s
                   in (isVerified verification, s)
               | None \<Rightarrow> (True, s))
        in if \<not> verified then s
           else
             let s = s\<lparr>wakeWordDetected := True\<rparr>;
                 commandPart = trim (replace_first transcript' ''youtube'' '''')
             in if commandPart \<noteq> []
                then processCommand dispatch fr2 now2 commandPart (duckAudio True s)
                else
                  let s = duckAudio True s;
                      (t, s) = setTimeout CbResetWakeWord wakeWordWindow s
                  in s\<lparr>wakeWordTimeout := Some t\<rparr>
      else s)"

text \<open>
  The handlers that \<open>setupSpeechRecognition\<close> installs on \<open>this.recognition\<close>, and
  \<open>startListening\<close>; \<open>throws\<close> says whether \<open>recognition.start()\<close> raises.
\<close>

definition recognition_onstart :: "vc_state \<Rightarrow> vc_state" where
  "recognition_onstart s =
     (let s = s\<lparr>isListening := True\<rparr>
      in if wakeWordDetected s then duckAudio True s else s)"

definition recognition_onresult ::
  "dispatcher \<Rightarrow> frame \<Rightarrow> nat \<Rightarrow> frame \<Rightarrow> nat \<Rightarrow> string \<Rightarrow> vc_state \<Rightarrow> vc_state" where
  "recognition_onresult dispatch fr now fr2 now2 heard s =
     (let transcript' = toLowerCase (trim heard)
      in if enrollmentMode s then s
         else if \<not> wakeWordDetected s
         then processWakeWord dispatch fr now fr2 now2 transcript' s
         else processCommand dispatch fr now transcript' (duckAudio False s))"

definition recognition_onerror :: "string \<Rightarrow> vc_state \<Rightarrow> vc_state" where
  "recognition_onerror error s = s"

definition recognition_onend :: "vc_state \<Rightarrow> vc_state" where
  "recognition_onend s =
     (let s = s\<lparr>isListening := False, recognition := map_option (\<lambda>r. Ended) (recognition s)\<rparr>;
          s = duckAudio False s
      in if isActive s
         then (let (t, s) = setTimeout CbStartListening 300 s in s\<lparr>restartTimeout := Some t\<rparr>)
         else s)"

definition startListening :: "bool \<Rightarrow> vc_state \<Rightarrow> vc_state" where
  "startListening throws s =
     (if isListening s \<or> recognition s = None then s
      else
        let s = s\<lparr>isActive := True\<rparr>
        in if throws
           then (if isActive s then snd (setTimeout CbStartListening 1000 s) else s)
           else s\<lparr>recognition := Some Running\<rparr>)"

definition stopListening :: "vc_state \<Rightarrow> vc_state" where
  "stopListening s =
     (let s = s\<lparr>isActive := False\<rparr>;
          s = resetWakeWord s;
          s = clearTimeout (restartTimeout s) s
      in if recognition s \<noteq> None \<and> isListening s
         then s\<lparr>recognition := stop (recognition s)\<rparr>
         else s)"

subsection \<open>Voiceprint aggregation\<close>

definition averageFeature :: "(features \<Rightarrow> real) \<Rightarrow> features list \<Rightarrow> real" where
  "averageFeature featureName samples =
     (let sum = foldl (\<lambda>acc sample. acc + featureName sample) 0 samples
      in sum / real (length samples))"

text \<open>
  Every sample that \<open>captureVoiceFeatures\<close> builds has 13 coefficients and three
  formants; a slot that a sample lacks is read as 0 here.
\<close>

definition slot :: "'a list \<Rightarrow> nat \<Rightarrow> ('a \<Rightarrow> real) \<Rightarrow> real" where
  "slot xs i f = (if i < length xs then f (xs ! i) else 0)"

definition averageMFCC :: "features list \<Rightarrow> real list" where
  "averageMFCC samples =
     (case samples of
        [] \<Rightarrow> []
      | first # _ \<Rightarrow>
          let mfccLength = length (mfcc first)
          in map (\<lambda>i. let sum = foldl (\<lambda>acc sample. acc + slot (mfcc sample) i (\<lambda>x. x)) 0 samples
                      in sum / real (length samples))
               [0..<mfccLength])"

definition averageFormants :: "features list \<Rightarrow> formant list" where
  "averageFormants samples =
     (case samples of
        [] \<Rightarrow> []
      | first # _ \<Rightarrow>
          let formantCount = length (formants first)
          in map (\<lambda>f. let freqSum =
                            foldl (\<lambda>acc sample. acc + slot (formants sample) f frequency) 0 samples;
                          magSum =
                            foldl (\<lambda>acc sample. acc + slot (formants sample) f magnitude) 0 samples
                      in \<lparr>frequency = freqSum / real (length samples),
                          magnitude = magSum / real (length samples)\<rparr>)
               [0..<formantCount])"

definition calculateStdDev :: "(features \<Rightarrow> real) \<Rightarrow> features list \<Rightarrow> real" where
  "calculateStdDev featureName samples =
     (let mean = averageFeature featureName samples;
          squaredDiffs = map (\<lambda>sample. (featureName sample - mean)\<^sup>2) samples;
          variance = foldl (\<lambda>acc val. acc + val) 0 squaredDiffs / real (length samples)
      in sqrt variance)"

text \<open>\<open>createVoiceprint\<close>, with the value of \<open>Date.now()\<close>.\<close>

definition createVoiceprint :: "nat \<Rightarrow> vc_state \<Rightarrow> voiceprint option \<times> vc_state" where
  "createVoiceprint now s =
     (if length (enrollmentSamples s) = 0 then (None, s)
      else
        let samples = enrollmentSamples s;
            voiceprint' =
              \<lparr>fundamentalFreq = averageFeature fundamentalFreq samples,
               formants = averageFormants samples,
               spectralCentroid = averageFeature spectralCentroid samples,
               spectralRolloff = averageFeature spectralRolloff samples,
               spectralFlux = averageFeature spectralFlux samples,
               spectralFlatness = averageFeature spectralFlatness samples,
               mfcc = averageMFCC samples,
               zeroCrossingRate = averageFeature zeroCrossingRate samples,
               energy = averageFeature energy samples,
               voicedRatio = averageFeature voicedRatio samples,
               harmonicRatio = averageFeature harmonicRatio samples,
               fundamentalFreqStd = calculateStdDev fundamentalFreq samples,
               energyStd = calculateStdDev energy samples,
               spectralCentroidStd = calculateStdDev spectralCentroid samples,
               sampleCount = length samples,
               createdAt = now\<rparr>
        in (Some voiceprint', s\<lparr>voiceprint := Some voiceprint'\<rparr>))"

definition saveVoiceprint :: "vc_state \<Rightarrow> vc_state" where
  "saveVoiceprint s =
     (case voiceprint s of
        None \<Rightarrow> s
      | Some vp \<Rightarrow> s\<lparr>savedVoiceprint := Some (vp, enrollmentSamples s)\<rparr>)"

subsection \<open>Enrollment\<close>

definition hideTrainingPanel :: "vc_state \<Rightarrow> vc_state" where
  "hideTrainingPanel s =
     (if trainingPanel s then snd (setTimeout CbRemoveTrainingPanel 300 s) else s)"

text \<open>The callback of the timer that \<open>hideTrainingPanel\<close> sets.\<close>

definition removeTrainingPanel :: "vc_state \<Rightarrow> vc_state" where
  "removeTrainingPanel s = s\<lparr>trainingPanel := False\<rparr>"

definition cancelTraining :: "vc_state \<Rightarrow> vc_state" where
  "cancelTraining s =
     (let s = (case enrollmentRecognition s of
                 Some r \<Rightarrow> s\<lparr>enrollmentRecognition := stop (Some r)\<rparr>
               | None \<Rightarrow> s);
          s = (case enrollmentCountdownInterval s of
                 Some t \<Rightarrow> clearTimeout (Some t) s
               | None \<Rightarrow> s);
          s = s\<lparr>enrollmentMode := False, isActive := False\<rparr>;
          s = hideTrainingPanel s
      in snd (setTimeout CbUpdateOverlayStatus 2000 s))"

text \<open>
  \<open>completeEnrollment\<close>. The second timer resumes normal operation (it resets the
  recognition handlers and restarts voice activity detection).
\<close>

definition completeEnrollment :: "nat \<Rightarrow> vc_state \<Rightarrow> vc_state" where
  "completeEnrollment now s =
     (let s = s\<lparr>enrollmentMode := False\<rparr>;
          s = snd (createVoiceprint now s);
          s = saveVoiceprint s;
          s = snd (setTimeout CbHideTrainingPanel 1500 s)
      in snd (setTimeout CbResumeNormalOperation 3000 s))"

definition continueEnrollment :: "nat \<Rightarrow> vc_state \<Rightarrow> vc_state" where
  "continueEnrollment now s =
     (if currentEnrollmentPhrase s \<ge> length enrollmentPhrases then completeEnrollment now s
      else snd (setTimeout CbStartEnrollmentListening 1500 s))"

definition advanceEnrollment :: "nat \<Rightarrow> vc_state \<Rightarrow> vc_state" where
  "advanceEnrollment now s =
     (let s = s\<lparr>currentSampleCount := currentSampleCount s + 1\<rparr>
      in if currentSampleCount s \<ge> samplesPerPhrase s
         then
           let s = s\<lparr>currentEnrollmentPhrase := currentEnrollmentPhrase s + 1,
                     currentSampleCount := 0\<rparr>
           in if currentEnrollmentPhrase s \<ge> length enrollmentPhrases
              then completeEnrollment now s
              else snd (setTimeout CbContinueEnrollment 2000 s)
         else snd (setTimeout CbContinueEnrollment 1000 s))"

definition initializeEnrollment :: "vc_state \<Rightarrow> vc_state" where
  "initializeEnrollment s =
     (let s = s\<lparr>enrollmentSamples := [], currentEnrollmentPhrase := 0, currentSampleCount := 0,
                samplesPerPhrase := 1,
                isActive := False, wakeWordDetected := False, voiceDetectionActive := False,
                trainingPanel := True\<rparr>
      in snd (setTimeout CbContinueEnrollment 2000 s))"

definition startSpeakerEnrollment :: "vc_state \<Rightarrow> vc_state" where
  "startSpeakerEnrollment s =
     (let s = s\<lparr>isActive := False, enrollmentMode := True\<rparr>
      in if recognition s \<noteq> None \<and> isListening s
         then snd (setTimeout CbInitializeEnrollment 500 (s\<lparr>recognition := stop (recognition s)\<rparr>))
         else initializeEnrollment s)"

text \<open>
  \<open>startEnrollmentListening\<close> creates a recognition object with the handlers below and
  starts it; \<open>throws\<close> says whether \<open>start()\<close> raises. The call has fresh local
  variables \<open>enrollmentTimeout\<close> and \<open>hasGotResult\<close>.
\<close>

definition startEnrollmentListening :: "bool \<Rightarrow> vc_state \<Rightarrow> vc_state" where
  "startEnrollmentListening throws s =
     (let s = s\<lparr>enrollmentRecognition := Some Created,
                enrollmentTimeout := None, hasGotResult := False\<rparr>
      in if throws then s else s\<lparr>enrollmentRecognition := Some Running\<rparr>)"

definition enrollment_onstart :: "vc_state \<Rightarrow> vc_state" where
  "enrollment_onstart s =
     (let s = s\<lparr>timeLeft := 5\<rparr>;
          (t, s) = setInterval CbCountdownTick 1000 s;
          s = s\<lparr>enrollmentCountdownInterval := Some t\<rparr>;
          (t, s) = setTimeout CbEnrollmentTimeout 5000 s;
          s = s\<lparr>enrollmentTimeout := Some t\<rparr>;
          (t, s) = setTimeout CbProcessingTimeout 8000 s
      in s\<lparr>processingTimeout := Some t\<rparr>)"

text \<open>The callbacks of the three timers that the \<open>onstart\<close> handler sets.\<close>

definition countdown_tick :: "vc_state \<Rightarrow> vc_state" where
  "countdown_tick s =
     (if hasGotResult s then clearTimeout (enrollmentCountdownInterval s) s
      else
        let s = s\<lparr>timeLeft := timeLeft s - 1\<rparr>
        in if timeLeft s > 0 then s
           else clearTimeout (enrollmentCountdownInterval s) s)"

definition enrollment_timeout :: "vc_state \<Rightarrow> vc_state" where
  "enrollment_timeout s =
     (if \<not> hasGotResult s
      then (clearTimeout (enrollmentCountdownInterval s) s)
             \<lparr>enrollmentRecognition := stop (enrollmentRecognition s)\<rparr>
      else s)"

definition processing_timeout :: "vc_state \<Rightarrow> vc_state" where
  "processing_timeout s =
     (if hasGotResult s \<and> \<not> enrollmentPhraseMatched s
      then s\<lparr>enrollmentRecognition := stop (enrollmentRecognition s)\<rparr>
      else s)"

text \<open>
  The condition under which the \<open>onresult\<close> handler evaluates a hypothesis: enough
  words or enough characters, at least two characters, and no result taken yet.
\<close>

definition enrollment_gate :: "string \<Rightarrow> string \<Rightarrow> vc_state \<Rightarrow> bool" where
  "enrollment_gate transcript' expectedPhrase s =
     (let expectedWordCount = split_ws_length expectedPhrase;
          currentWordCount = split_ws_length (trim transcript');
          hasEnoughWords = (currentWordCount \<ge> expectedWordCount);
          isLongEnough = (real (length transcript') \<ge> real (length expectedPhrase) * 0.7)
      in (hasEnoughWords \<or> isLongEnough) \<and> length transcript' \<ge> 2 \<and> \<not> hasGotResult s)"

text \<open>
  The \<open>onresult\<close> handler, given the text of the most recent result, the frame
  that the analyser delivers and \<open>Date.now()\<close>. Reading a phrase past the end of
  \<open>enrollmentPhrases\<close> raises in the source before anything is changed.
\<close>

definition enrollment_onresult :: "frame \<Rightarrow> nat \<Rightarrow> string \<Rightarrow> vc_state \<Rightarrow> vc_state" where
  "enrollment_onresult fr now heard s =
     (if currentEnrollmentPhrase s \<ge> length enrollmentPhrases then s
      else
        let transcript' = trim heard;
            expectedPhrase = toLowerCase (enrollmentPhrases ! currentEnrollmentPhrase s);
            expectedWordCount = split_ws_length expectedPhrase
        in if enrollment_gate transcript' expectedPhrase s
           then
             let s = clearTimeout (enrollmentTimeout s) s;
                 s = clearTimeout (enrollmentCountdownInterval s) s;
                 s = clearTimeout (processingTimeout s) s;
                 s = s\<lparr>hasGotResult := True\<rparr>;
                 similarity = calculatePhraseSimilarity (toLowerCase transcript') expectedPhrase;
                 requiredSimilarity = (if expectedWordCount \<le> 3 then 0.8 else 0.7)
             in if similarity \<ge> requiredSimilarity
                then
                  let s = s\<lparr>enrollmentRecognition := stop (enrollmentRecognition s),
                            enrollmentPhraseMatched := True\<rparr>;
                      s = snd (captureVoiceFeatures fr now transcript' True s)
                  in snd (setTimeout CbAdvanceEnrollment 800 s)
                else
                  let s = s\<lparr>enrollmentRecognition := stop (enrollmentRecognition s),
                            enrollmentPhraseMatched := False\<rparr>
                  in snd (setTimeout CbContinueEnrollment 1200 s)
           else s)"

definition enrollment_onend :: "vc_state \<Rightarrow> vc_state" where
  "enrollment_onend s =
     (let s = (case enrollmentTimeout s of
                 Some t \<Rightarrow> (clearTimeout (Some t) s)\<lparr>enrollmentTimeout := None\<rparr>
               | None \<Rightarrow> s);
          s = (case enrollmentCountdownInterval s of
                 Some t \<Rightarrow> (clearTimeout (Some t) s)\<lparr>enrollmentCountdownInterval := None\<rparr>
               | None \<Rightarrow> s);
          s = (case processingTimeout s of
                 Some t \<Rightarrow> (clearTimeout (Some t) s)\<lparr>processingTimeout := None\<rparr>
               | None \<Rightarrow> s);
          s = s\<lparr>enrollmentRecognition := map_option (\<lambda>r. Ended) (enrollmentRecognition s)\<rparr>;
          s = (if \<not> enrollmentPhraseMatched s \<and> \<not> hasGotResult s
               then snd (setTimeout CbContinueEnrollment 2000 s)
               else s)
      in s\<lparr>enrollmentPhraseMatched := False\<rparr>)"

text \<open>
  The state that the constructor builds, before \<open>init\<close>: no recognition object, no
  analyser, no voiceprint, nothing pending.
\<close>

definition initial_state :: "real option \<Rightarrow> vc_state" where
  "initial_state video =
     \<lparr>recognition = None, isListening = False, isActive = False, restartTimeout = None,
      wakeWordDetected = False, wakeWordTimeout = None,
      originalVolume = 1.0, isDucking = False,
      analyser = False, voiceDetectionActive = False,
      enrollmentMode = False, voiceprint = None, enrollmentSamples = [],
      enrollmentPhraseMatched = False, currentEnrollmentPhrase = 0,
      samplesPerPhrase = 1, currentSampleCount = 0,
      enrollmentRecognition = None, enrollmentCountdownInterval = None,
      processingTimeout = None, enrollmentTimeout = None, hasGotResult = False, timeLeft = 0,
      trainingPanel = False,
      videoVolume = video, timers = [], nextTimerId = 1,
      savedVoiceprint = None\<rparr>"

subsection \<open>Events without an utterance\<close>

text \<open>
  What can happen between two utterances: the recognition session starts, ends or
  reports an error, a pending timer that calls \<open>startListening\<close> fires (the restart
  300 ms after a session ended, or the retry 1000 ms after a failed start), or voice
  activity detection calls \<open>startListening\<close>. The flag says whether
  \<open>recognition.start()\<close> raises.
\<close>

datatype quiet_event =
    RecognitionStarts
  | RecognitionEnds
  | RecognitionError string
  | RestartTimerFires nat bool
  | VoiceDetected bool

fun quiet_step :: "quiet_event \<Rightarrow> vc_state \<Rightarrow> vc_state" where
  "quiet_step RecognitionStarts s = recognition_onstart s"
| "quiet_step RecognitionEnds s = recognition_onend s"
| "quiet_step (RecognitionError e) s = recognition_onerror e s"
| "quiet_step (RestartTimerFires t throws) s =
     (case find (\<lambda>x. tid x = t) (timers s) of
        Some x \<Rightarrow>
          if callback x = CbStartListening then startListening throws (timeout_fires t s)
          else s
      | None \<Rightarrow> s)"
| "quiet_step (VoiceDetected throws) s = startListening throws s"

text \<open>The handles of the pending timers are below the next handle to be given out.\<close>

definition fresh_handles :: "vc_state \<Rightarrow> bool" where
  "fresh_handles s = list_all (\<lambda>x. tid x < nextTimerId s) (timers s)"

text \<open>
  The command window is open in a state: the wake-word flag is set, the timer \<open>t\<close> of
  the window is pending with 4000 ms and \<open>resetWakeWord\<close> as its callback, no other
  pending timer has its handle, and the volume to restore is \<open>v\<close>.
\<close>

definition window_open :: "nat \<Rightarrow> real option \<Rightarrow> vc_state \<Rightarrow> bool" where
  "window_open t v s =
     (wakeWordDetected s \<and> wakeWordTimeout s = Some t \<and> t < nextTimerId s \<and> fresh_handles s
      \<and> filter (\<lambda>x. tid x = t) (timers s) =
           [\<lparr>tid = t, delay = 4000, repeating = False, callback = CbResetWakeWord\<rparr>]
      \<and> map_option (\<lambda>vol. if isDucking s then originalVolume s else vol) (videoVolume s) = v)"

subsection \<open>Concrete inputs\<close>

text \<open>
  A voiceprint with a voiced speaker's values, and a feature vector with the same acoustic
  fields.
\<close>

definition voiced_voiceprint :: voiceprint where
  "voiced_voiceprint =
     \<lparr>fundamentalFreq = 187.5,
      formants = [\<lparr>frequency = 562.5, magnitude = 180\<rparr>,
                  \<lparr>frequency = 1500, magnitude = 150\<rparr>,
                  \<lparr>frequency = 2625, magnitude = 90\<rparr>],
      spectralCentroid = 1400, spectralRolloff = 3000, spectralFlux = 12,
      spectralFlatness = 0.3,
      mfcc = [5, 5, 4, 4, 3, 3, 2, 2, 1, 1, 1, 1, 1],
      zeroCrossingRate = 0.1, energy = 0.02, voicedRatio = 0.5, harmonicRatio = 0.2,
      fundamentalFreqStd = 0, energyStd = 0, spectralCentroidStd = 0,
      sampleCount = 1, createdAt = 0\<rparr>"

definition voiced_features :: features where
  "voiced_features =
     \<lparr>fundamentalFreq = 187.5,
      formants = [\<lparr>frequency = 562.5, magnitude = 180\<rparr>,
                  \<lparr>frequency = 1500, magnitude = 150\<rparr>,
                  \<lparr>frequency = 2625, magnitude = 90\<rparr>],
      spectralCentroid = 1400, spectralRolloff = 3000, spectralFlux = 12,
      spectralFlatness = 0.3,
      mfcc = [5, 5, 4, 4, 3, 3, 2, 2, 1, 1, 1, 1, 1],
      zeroCrossingRate = 0.1, energy = 0.02, voicedRatio = 0.5, harmonicRatio = 0.2,
      transcript = ''youtube'', timestamp = 1\<rparr>"

text \<open>
  The features of a frame of silence (no magnitude in any bin, every time-domain sample
  at the midpoint, 128 bins at 48000 Hz), and the voiceprint that \<open>createVoiceprint\<close>
  builds from this one sample.
\<close>

definition flat_voiceprint :: voiceprint where
  "flat_voiceprint =
     \<lparr>fundamentalFreq = 0,
      formants = [\<lparr>frequency = 187.5, magnitude = 0\<rparr>,
                  \<lparr>frequency = 750, magnitude = 0\<rparr>,
                  \<lparr>frequency = 1500, magnitude = 0\<rparr>],
      spectralCentroid = 0, spectralRolloff = 0, spectralFlux = 0, spectralFlatness = 0,
      mfcc = [0, 0, 0, 0, 0, 0, 0, 0, 0, 0, 0, 0, 0],
      zeroCrossingRate = 0, energy = 0, voicedRatio = 0, harmonicRatio = 0,
      fundamentalFreqStd = 0, energyStd = 0, spectralCentroidStd = 0,
      sampleCount = 1, createdAt = 0\<rparr>"

definition flat_features :: features where
  "flat_features =
     \<lparr>fundamentalFreq = 0,
      formants = [\<lparr>frequency = 187.5, magnitude = 0\<rparr>,
                  \<lparr>frequency = 750, magnitude = 0\<rparr>,
                  \<lparr>frequency = 1500, magnitude = 0\<rparr>],
      spectralCentroid = 0, spectralRolloff = 0, spectralFlux = 0, spectralFlatness = 0,
      mfcc = [0, 0, 0, 0, 0, 0, 0, 0, 0, 0, 0, 0, 0],
      zeroCrossingRate = 0, energy = 0, voicedRatio = 0, harmonicRatio = 0,
      transcript = ''youtube'', timestamp = 1\<rparr>"

text \<open>A controller with a video at full volume and a stored voiceprint.\<close>

definition state_with :: "voiceprint \<Rightarrow> vc_state" where
  "state_with vp = (initial_state (Some 1))\<lparr>voiceprint := Some vp, analyser := True\<rparr>"

text \<open>A frame of silence: 128 bins without magnitude, every sample at the midpoint.\<close>

definition quiet_frame :: frame where
  "quiet_frame =
     \<lparr>frequencyData = replicate 128 0, timeDomainData = replicate 128 128, sampleRate = 48000\<rparr>"

text \<open>
  The controller of a page whose video plays at volume 0.8, listening for the wake word:
  the recognition session is running, the analyser exists, no voiceprint is stored.
\<close>

definition listening_state :: vc_state where
  "listening_state =
     (initial_state (Some 0.8))\<lparr>recognition := Some Running, isListening := True,
        isActive := True, analyser := True\<rparr>"

text \<open>A dispatcher that recognises no command.\<close>

definition no_command :: dispatcher where
  "no_command text' s = None"

text \<open>
  The value that C8 claims for the spectral flatness, in the words of the
  specification: the geometric mean of the nonzero magnitudes divided by their arithmetic
  mean (0 for a frame without a nonzero magnitude).
\<close>

definition spec_spectralFlatness :: "byte list \<Rightarrow> real" where
  "spec_spectralFlatness frequencyData' =
     (let nonzero = filter (\<lambda>m. m > 0) (map mag frequencyData');
          n = length nonzero
      in if n = 0 then 0
         else root n (prod_list nonzero) / (sum_list nonzero / real n))"

text \<open>Frequency data of 128 bins: nothing in the lower half, magnitude 4 in the upper half.\<close>

definition upper_band :: "byte list" where
  "upper_band = replicate 64 0 @ replicate 64 4"

text \<open>
  Enrollment on a page whose video is at full volume, with or without an analyser: started,
  then waiting for the first phrase (the timer of \<open>initializeEnrollment\<close> has fired and
  \<open>continueEnrollment\<close> has set the timer that starts listening), then recording (that
  timer has fired and the session has started).
\<close>

definition enrollment_started :: "bool \<Rightarrow> vc_state" where
  "enrollment_started a = startSpeakerEnrollment ((initial_state (Some 1))\<lparr>analyser := a\<rparr>)"

definition awaiting_phrase :: "bool \<Rightarrow> vc_state" where
  "awaiting_phrase a = continueEnrollment 0 (timeout_fires 1 (enrollment_started a))"

definition recording :: "bool \<Rightarrow> vc_state" where
  "recording a =
     enrollment_onstart (startEnrollmentListening False (timeout_fires 2 (awaiting_phrase a)))"

section \<open>Properties\<close>

subsection \<open>The frame of silence\<close>

lemma mag_simple: "mag 0 = 0" "mag 128 = 128"
  by (simp_all add: mag_def)

lemma fold_fixed: "\<forall>x\<in>set xs. f x acc = acc \<Longrightarrow> fold f xs acc = acc"
  by (induction xs) simp_all

lemma q_f0: "extractFundamentalFrequency 48000 (replicate 128 0) = 0"
  by (simp add: extractFundamentalFrequency_def Let_def)

lemma read_zero: "read (replicate 128 0) i = (if 0 \<le> i \<and> i < 128 then Some 0 else None)"
  by (simp add: read_def mag_simple nat_less_iff)

lemma q_formants: "extractFormants 48000 (replicate 128 0) =
   [\<lparr>frequency = 187.5, magnitude = 0\<rparr>, \<lparr>frequency = 750, magnitude = 0\<rparr>, \<lparr>frequency = 1500, magnitude = 0\<rparr>]"
  by (simp add: extractFormants_def formantRanges_def Let_def read_zero fold_fixed)

lemma q_centroid: "calculateSpectralCentroid 48000 (replicate 128 0) = 0"
  by (simp add: calculateSpectralCentroid_def Let_def mag_simple fold_fixed)

lemma q_rolloff: "calculateSpectralRolloff 48000 (replicate 128 0) = 0"
proof -
  have "foldl (\<lambda>sum val. sum + mag val) 0 (replicate 128 0) = 0"
    unfolding foldl_conv_fold by (simp add: fold_fixed mag_simple del: fold_replicate)
  then show ?thesis
    by (simp add: calculateSpectralRolloff_def Let_def upt_rec [of 0 128] mag_simple)
qed

lemma q_flux: "calculateSpectralFlux (replicate 128 0) = 0"
  by (simp add: calculateSpectralFlux_def Let_def mag_simple fold_fixed less_imp_diff_less)

lemma q_flatness: "calculateSpectralFlatness (replicate 128 0) = 0"
  by (simp add: calculateSpectralFlatness_def Let_def flatness_step_def mag_simple fold_fixed)

lemma band_end: "m < 13 \<Longrightarrow> nat \<lfloor>(128 + real m * 128) / 13\<rfloor> \<le> 128"
proof -
  assume "m < 13"
  then have "real m \<le> 12" by simp
  then have le: "(128 + real m * 128) / 13 \<le> 128" by simp
  have "real_of_int \<lfloor>(128 + real m * 128) / 13\<rfloor> \<le> (128 + real m * 128) / 13"
    by (rule of_int_floor_le)
  with le have "real_of_int \<lfloor>(128 + real m * 128) / 13\<rfloor> \<le> 128" by linarith
  then have "\<lfloor>(128 + real m * 128) / 13\<rfloor> \<le> 128" by linarith
  then show ?thesis by linarith
qed

lemma q_mfcc: "calculateMFCC (replicate 128 0) = [0, 0, 0, 0, 0, 0, 0, 0, 0, 0, 0, 0, 0]"
proof -
  have z: "\<And>a b. b \<le> 128 \<Longrightarrow> fold (\<lambda>i sum. sum + mag (replicate 128 0 ! i)) [a..<b] 0 = 0"
    by (simp add: fold_fixed mag_simple)
  have "calculateMFCC (replicate 128 0) = map (\<lambda>m. 0) [0..<13]"
    unfolding calculateMFCC_def Let_def
    by (rule map_cong [OF refl]) (simp add: z band_end)
  then show ?thesis
    by (simp add: upt_rec [of _ 13])
qed

lemma q_zcr: "calculateZeroCrossingRate (replicate 128 128) = 0"
  by (simp add: calculateZeroCrossingRate_def Let_def mag_simple fold_fixed less_imp_diff_less)

lemma q_energy: "calculateEnergy (replicate 128 128) = 0"
  by (simp add: calculateEnergy_def Let_def mag_simple fold_fixed)

lemma q_voiced: "calculateVoicedRatio 48000 (replicate 128 0) = 0"
  by (simp add: calculateVoicedRatio_def Let_def mag_simple fold_fixed)

lemma q_harmonic: "calculateHarmonicRatio 48000 (replicate 128 0) = 0"
  by (simp add: calculateHarmonicRatio_def q_f0)

text \<open>The features of the frame of silence.\<close>

lemma quiet_frame_features:
  "extract_features quiet_frame ''youtube'' 1 = flat_features"
  by (simp add: flat_features_def extract_features_def quiet_frame_def q_f0 q_formants q_centroid q_rolloff q_flux
        q_flatness q_mfcc q_zcr q_energy q_voiced q_harmonic del: replicate.simps)


text \<open>The voiceprint that \<open>createVoiceprint\<close> builds from that one sample.\<close>

lemma quiet_frame_voiceprint:
  "fst (createVoiceprint 0 (s\<lparr>enrollmentSamples := [flat_features]\<rparr>)) = Some flat_voiceprint"
  by (simp add: createVoiceprint_def Let_def averageFeature_def calculateStdDev_def
        averageMFCC_def averageFormants_def slot_def flat_features_def flat_voiceprint_def
        upt_rec [of _ 13] upt_rec [of _ 3])

subsection \<open>Verification\<close>

lemma required_threshold_cases:
  "required_threshold c =
     (if c = ''wake_word'' then Num 0.45
      else if c = ''command'' then Num 0.40
      else if c \<in> set objectPrototype then Member c
      else Num 0.35)"
  by (simp add: required_threshold_def contextThresholds_def property_def or_else_def
        objectPrototype_def)

lemma required_threshold_own:
  "required_threshold ''wake_word'' = Num 0.45"
  "required_threshold ''command'' = Num 0.40"
  "required_threshold ''general'' = Num 0.35"
  by (simp_all add: required_threshold_def contextThresholds_def property_def or_else_def)

lemma mlv_confidence:
  assumes "voiceprint s = Some vp"
  shows "confidence (fst (multiLayerVerification (Some cf) c s)) =
     (0.15 * verifyEnergyPattern vp cf
      + 0.25 * calculateFrequencySimilarity (fundamentalFreq cf) (fundamentalFreq vp)
                 (fundamentalFreqStd vp)
      + 0.25 * calculateFormantSimilarity (formants cf) (formants vp)
      + 0.20 * calculateSpectralSimilarity vp cf
      + 0.15 * calculateVoiceSimilarity vp cf) / (0.15 + 0.25 + 0.25 + 0.20 + 0.15)"
  using assms by (simp add: multiLayerVerification_def Let_def layer_table_def)

lemma mlv_passed:
  assumes "voiceprint s = Some vp"
  shows "passedLayers (fst (multiLayerVerification (Some cf) c s)) =
     Some (length (filter (\<lambda>p. p)
       [verifyEnergyPattern vp cf \<ge> 0.40,
        calculateFrequencySimilarity (fundamentalFreq cf) (fundamentalFreq vp)
          (fundamentalFreqStd vp) \<ge> 0.50,
        calculateFormantSimilarity (formants cf) (formants vp) \<ge> 0.45,
        calculateSpectralSimilarity vp cf \<ge> 0.40,
        calculateVoiceSimilarity vp cf \<ge> 0.45]))"
  using assms by (simp add: multiLayerVerification_def Let_def layer_table_def layer_entry_def)

lemma mlv_verified:
  assumes "voiceprint s = Some vp"
  shows "isVerified (fst (multiLayerVerification (Some cf) c s)) \<longleftrightarrow>
     at_least (confidence (fst (multiLayerVerification (Some cf) c s)))
       (required_threshold (case c of None \<Rightarrow> ''general'' | Some x \<Rightarrow> x))
     \<and> passedLayers (fst (multiLayerVerification (Some cf) c s))
         \<in> Some ` {n. 2 \<le> n}"
  using assms
  by (simp add: multiLayerVerification_def Let_def layer_table_def layer_entry_def image_iff)

lemma mlv_state: "snd (multiLayerVerification cfo c s) = s"
  by (cases "voiceprint s"; cases cfo) (simp_all add: multiLayerVerification_def Let_def)

lemma energy_same:
  "energy cf = energy vp \<Longrightarrow> zeroCrossingRate cf = zeroCrossingRate vp \<Longrightarrow> energy vp \<noteq> 0 \<Longrightarrow>
   verifyEnergyPattern vp cf = 1"
  by (simp add: verifyEnergyPattern_def Let_def)

lemma frequency_same: "a \<noteq> 0 \<Longrightarrow> calculateFrequencySimilarity a a sd = 1"
  by (simp add: calculateFrequencySimilarity_def Let_def)

lemma frequency_range:
  "0 \<le> calculateFrequencySimilarity a b sd \<and> calculateFrequencySimilarity a b sd \<le> 1"
  by (simp add: calculateFrequencySimilarity_def Let_def)

lemma voice_same:
  "voicedRatio cf = voicedRatio vp \<Longrightarrow> harmonicRatio cf = harmonicRatio vp \<Longrightarrow>
   zeroCrossingRate cf = zeroCrossingRate vp \<Longrightarrow> calculateVoiceSimilarity vp cf = 1"
  by (simp add: calculateVoiceSimilarity_def Let_def)

lemma formant_same:
  "frequency f1 \<noteq> 0 \<Longrightarrow> frequency f2 \<noteq> 0 \<Longrightarrow> frequency f3 \<noteq> 0 \<Longrightarrow>
   calculateFormantSimilarity [f1, f2, f3] [f1, f2, f3] = 1"
  by (simp add: calculateFormantSimilarity_def formantWeights_def Let_def)

text \<open>
  On a table whose entries compare a value with itself, the spectral loop counts the
  nonzero values, each with similarity 1.
\<close>

lemma spectral_loop_same:
  "spectral_loop (map (\<lambda>(x, t). (x, x, t)) xs) (tot, n) =
     (tot + real (length (filter (\<lambda>(x, t). x \<noteq> 0) xs)),
      n + length (filter (\<lambda>(x, t). x \<noteq> 0) xs))"
  by (induction xs arbitrary: tot n) (auto simp: Let_def)

lemma spectral_same:
  assumes "spectralCentroid cf = spectralCentroid vp" "spectralRolloff cf = spectralRolloff vp"
    "spectralFlux cf = spectralFlux vp" "spectralFlatness cf = spectralFlatness vp"
    and nz: "spectralCentroid vp \<noteq> 0 \<or> spectralRolloff vp \<noteq> 0 \<or> spectralFlux vp \<noteq> 0
             \<or> spectralFlatness vp \<noteq> 0"
  shows "calculateSpectralSimilarity vp cf = 1"
proof -
  let ?xs = "[(spectralCentroid vp, 500::real), (spectralRolloff vp, 1000),
              (spectralFlux vp, 10), (spectralFlatness vp, 0.1)]"
  have "spectral_loop (map (\<lambda>(x, t). (x, x, t)) ?xs) (0, 0) =
     (0 + real (length (filter (\<lambda>(x, t). x \<noteq> 0) ?xs)),
      0 + length (filter (\<lambda>(x, t). x \<noteq> 0) ?xs))"
    by (rule spectral_loop_same)
  moreover have "0 < length (filter (\<lambda>(x, t). x \<noteq> 0) ?xs)"
    using nz by auto
  ultimately show ?thesis
    using assms(1-4)
    by (simp add: calculateSpectralSimilarity_def Let_def del: spectral_loop.simps filter.simps)
qed


lemma flat_scores:
  "verifyEnergyPattern flat_voiceprint flat_features = 0"
  "calculateFrequencySimilarity (fundamentalFreq flat_features)
     (fundamentalFreq flat_voiceprint) (fundamentalFreqStd flat_voiceprint) = 0"
  "calculateFormantSimilarity (formants flat_features) (formants flat_voiceprint) = 1"
  "calculateSpectralSimilarity flat_voiceprint flat_features = 0"
  "calculateVoiceSimilarity flat_voiceprint flat_features = 1"
  by (simp_all add: verifyEnergyPattern_def calculateFrequencySimilarity_def formant_same
        calculateSpectralSimilarity_def voice_same flat_voiceprint_def flat_features_def)

lemma voiceprint_state_with: "voiceprint (state_with vp) = Some vp"
  by (simp add: state_with_def)

text \<open>
  What \<open>multiLayerVerification\<close> returns for a stored voiceprint, a feature vector and
  any context: the confidence is the weighted mean of the five layer scores with the
  weights 0.15, 0.25, 0.25, 0.20 and 0.15; the threshold is 0.45 for \<open>wake_word\<close>, 0.40
  for \<open>command\<close>, the inherited member for a name of \<open>Object.prototype\<close> and 0.35 for
  every other context and for an omitted one; \<open>isVerified\<close> holds exactly when the
  confidence is at least a threshold that is a number and at least two of the five
  scores reach their own thresholds 0.40, 0.50, 0.45, 0.40 and 0.45.
\<close>

lemma mlv_verdict:
  assumes "voiceprint s = Some vp"
  shows
    "let r = fst (multiLayerVerification (Some cf) contextArg s);
         energyScore = verifyEnergyPattern vp cf;
         f0Score = calculateFrequencySimilarity (fundamentalFreq cf) (fundamentalFreq vp)
                     (fundamentalFreqStd vp);
         formantScore = calculateFormantSimilarity (formants cf) (formants vp);
         spectralScore = calculateSpectralSimilarity vp cf;
         voiceScore = calculateVoiceSimilarity vp cf;
         required =
           (case contextArg of
              None \<Rightarrow> Num 0.35
            | Some c \<Rightarrow>
                if c = ''wake_word'' then Num 0.45
                else if c = ''command'' then Num 0.40
                else if c \<in> set objectPrototype then Member c
                else Num 0.35)
     in confidence r =
          (0.15 * energyScore + 0.25 * f0Score + 0.25 * formantScore + 0.20 * spectralScore
           + 0.15 * voiceScore) / (0.15 + 0.25 + 0.25 + 0.20 + 0.15)
        \<and> requiredThreshold r = Some required
        \<and> (isVerified r \<longleftrightarrow>
             at_least (confidence r) required
             \<and> 2 \<le> length (filter (\<lambda>p. p)
                   [energyScore \<ge> 0.40, f0Score \<ge> 0.50, formantScore \<ge> 0.45,
                    spectralScore \<ge> 0.40, voiceScore \<ge> 0.45]))"
proof -
  have thr: "required_threshold (case contextArg of None \<Rightarrow> ''general'' | Some x \<Rightarrow> x) =
     (case contextArg of
        None \<Rightarrow> Num 0.35
      | Some c \<Rightarrow>
          if c = ''wake_word'' then Num 0.45
          else if c = ''command'' then Num 0.40
          else if c \<in> set objectPrototype then Member c
          else Num 0.35)"
    by (cases contextArg) (simp_all add: required_threshold_cases objectPrototype_def)
  have req: "requiredThreshold (fst (multiLayerVerification (Some cf) contextArg s)) =
     Some (required_threshold (case contextArg of None \<Rightarrow> ''general'' | Some x \<Rightarrow> x))"
    using assms by (simp add: multiLayerVerification_def Let_def)
  show ?thesis
    unfolding Let_def mlv_verified [OF assms] mlv_passed [OF assms] req thr
    by (simp add: mlv_confidence [OF assms] image_iff del: filter.simps)
qed


text \<open>
  C2. Claimed: with a feature vector whose every field equals the voiceprint's, the
  confidence is 1 and the vector is verified in each of the three contexts. A zero
  operand scores 0 in the energy and the frequency layer and is skipped in the spectral
  layer. For the features of the frame of silence and the voiceprint built from them
  (\<open>quiet_frame_features\<close>, \<open>quiet_frame_voiceprint\<close>) the confidence is 0.40 and the
  wake-word context rejects.
\<close>

theorem identical_features_counterexample:
  "acoustic.truncate flat_features = acoustic.truncate flat_voiceprint
   \<and> confidence (fst (multiLayerVerification (Some flat_features) (Some ''wake_word'')
        (state_with flat_voiceprint))) = 0.4
   \<and> \<not> isVerified (fst (multiLayerVerification (Some flat_features) (Some ''wake_word'')
        (state_with flat_voiceprint)))"
proof -
  have "acoustic.truncate flat_features = acoustic.truncate flat_voiceprint"
    by (simp add: acoustic.truncate_def flat_features_def flat_voiceprint_def)
  moreover have c: "confidence (fst (multiLayerVerification (Some flat_features)
        (Some ''wake_word'') (state_with flat_voiceprint))) = 0.4"
    by (simp add: mlv_confidence [OF voiceprint_state_with] flat_scores)
  moreover have "\<not> isVerified (fst (multiLayerVerification (Some flat_features)
        (Some ''wake_word'') (state_with flat_voiceprint)))"
    unfolding mlv_verified [OF voiceprint_state_with] c
    by (simp add: required_threshold_cases)
  ultimately show ?thesis by blast
qed

text \<open>
  C2, amended. When the stored voiceprint has a nonzero fundamental frequency, a
  nonzero energy, three formants of nonzero frequency and at least one nonzero spectral
  feature, a feature vector with the same acoustic fields has confidence 1 and is
  verified in the contexts \<open>wake_word\<close>, \<open>command\<close> and \<open>general\<close>.
\<close>

theorem identical_features_verified:
  assumes vp: "voiceprint s = Some vp"
    and same: "acoustic.truncate cf = acoustic.truncate vp"
    and f0: "fundamentalFreq vp \<noteq> 0"
    and en: "energy vp \<noteq> 0"
    and fm: "formants vp = [f1, f2, f3]" "frequency f1 \<noteq> 0" "frequency f2 \<noteq> 0"
            "frequency f3 \<noteq> 0"
    and sp: "spectralCentroid vp \<noteq> 0 \<or> spectralRolloff vp \<noteq> 0 \<or> spectralFlux vp \<noteq> 0
             \<or> spectralFlatness vp \<noteq> 0"
    and c: "c \<in> {''wake_word'', ''command'', ''general''}"
  shows "confidence (fst (multiLayerVerification (Some cf) (Some c) s)) = 1
         \<and> isVerified (fst (multiLayerVerification (Some cf) (Some c) s))"
proof -
  from same have eqs:
    "fundamentalFreq cf = fundamentalFreq vp" "formants cf = formants vp"
    "spectralCentroid cf = spectralCentroid vp" "spectralRolloff cf = spectralRolloff vp"
    "spectralFlux cf = spectralFlux vp" "spectralFlatness cf = spectralFlatness vp"
    "zeroCrossingRate cf = zeroCrossingRate vp" "energy cf = energy vp"
    "voicedRatio cf = voicedRatio vp" "harmonicRatio cf = harmonicRatio vp"
    by (simp_all add: acoustic.truncate_def)
  have scores:
    "verifyEnergyPattern vp cf = 1"
    "calculateFrequencySimilarity (fundamentalFreq cf) (fundamentalFreq vp)
       (fundamentalFreqStd vp) = 1"
    "calculateFormantSimilarity (formants cf) (formants vp) = 1"
    "calculateSpectralSimilarity vp cf = 1"
    "calculateVoiceSimilarity vp cf = 1"
    using eqs f0 en fm sp
    by (simp_all add: energy_same frequency_same formant_same spectral_same voice_same)
  have conf: "confidence (fst (multiLayerVerification (Some cf) (Some c) s)) = 1"
    by (simp add: mlv_confidence [OF vp] scores)
  have "at_least 1 (required_threshold c)"
    using c by (auto simp add: required_threshold_own)
  then have "isVerified (fst (multiLayerVerification (Some cf) (Some c) s))"
    unfolding mlv_verified [OF vp] mlv_passed [OF vp] conf scores
    by simp
  with conf show ?thesis by simp
qed

theorem identical_features_verified_witness:
  "voiceprint (state_with voiced_voiceprint) = Some voiced_voiceprint
   \<and> acoustic.truncate voiced_features = acoustic.truncate voiced_voiceprint
   \<and> confidence (fst (multiLayerVerification (Some voiced_features) (Some ''command'')
        (state_with voiced_voiceprint))) = 1
   \<and> isVerified (fst (multiLayerVerification (Some voiced_features) (Some ''command'')
        (state_with voiced_voiceprint)))"
proof -
  have same: "acoustic.truncate voiced_features = acoustic.truncate voiced_voiceprint"
    by (simp add: acoustic.truncate_def voiced_features_def voiced_voiceprint_def)
  have "confidence (fst (multiLayerVerification (Some voiced_features) (Some ''command'')
          (state_with voiced_voiceprint))) = 1
        \<and> isVerified (fst (multiLayerVerification (Some voiced_features) (Some ''command'')
          (state_with voiced_voiceprint)))"
    by (rule identical_features_verified [OF voiceprint_state_with same,
          where ?f1.0 = "\<lparr>frequency = 562.5, magnitude = 180\<rparr>"
            and ?f2.0 = "\<lparr>frequency = 1500, magnitude = 150\<rparr>"
            and ?f3.0 = "\<lparr>frequency = 2625, magnitude = 90\<rparr>"])
       (simp_all add: voiced_voiceprint_def)
  with same show ?thesis by (simp add: voiceprint_state_with)
qed

text \<open>
  C7. Claimed: the Gaussian similarity of a value with itself is 1 for every value,
  and the result is always in the unit interval. \<open>calculateFrequencySimilarity\<close>
  returns 0 when an operand is 0, also for two equal operands.
\<close>

theorem frequency_similarity_counterexample:
  "calculateFrequencySimilarity 0 0 10 \<noteq> 1"
  by (simp add: calculateFrequencySimilarity_def)

text \<open>
  C7, amended. For every nonzero value and every deviation (the tolerance, the larger of
  twice the deviation and 20, is positive), the similarity of the value with itself is
  1; the similarity of 0 with itself is 0; and for all inputs the result lies in the
  closed interval from 0 to 1.
\<close>

theorem frequency_similarity_reflexive_and_bounded:
  "(a \<noteq> 0 \<longrightarrow> calculateFrequencySimilarity a a stdDev = 1)
   \<and> calculateFrequencySimilarity 0 0 stdDev = 0
   \<and> 0 \<le> calculateFrequencySimilarity a b stdDev
   \<and> calculateFrequencySimilarity a b stdDev \<le> 1"
proof -
  have tolerance: "0 < max (stdDev * 2) 20"
    by simp
  have same: "a \<noteq> 0 \<longrightarrow> calculateFrequencySimilarity a a stdDev = 1"
    using tolerance by (simp add: calculateFrequencySimilarity_def Let_def)
  have zero: "calculateFrequencySimilarity 0 0 stdDev = 0"
    by (simp add: calculateFrequencySimilarity_def)
  have "0 \<le> calculateFrequencySimilarity a b stdDev"
    "calculateFrequencySimilarity a b stdDev \<le> 1"
    using frequency_range [of a b stdDev] by simp_all
  with same zero show ?thesis by simp
qed

theorem frequency_similarity_reflexive_and_bounded_witness:
  "(120::real) \<noteq> 0 \<and> calculateFrequencySimilarity 120 120 15 = 1
   \<and> 0 \<le> calculateFrequencySimilarity 120 200 15
   \<and> calculateFrequencySimilarity 120 200 15 \<le> 1"
  using frequency_similarity_reflexive_and_bounded [of 120 15 200] by simp

text \<open>
  C10. Without a stored voiceprint, or with \<open>null\<close> for the feature vector,
  \<open>multiLayerVerification\<close> returns \<open>isVerified = false\<close>, confidence 0 and an empty list
  of layers, and leaves the state as it was.
\<close>

theorem multiLayerVerification_without_input:
  assumes "voiceprint s = None \<or> cfo = None"
  shows "isVerified (fst (multiLayerVerification cfo contextArg s)) = False
         \<and> confidence (fst (multiLayerVerification cfo contextArg s)) = 0
         \<and> layers (fst (multiLayerVerification cfo contextArg s)) = []
         \<and> snd (multiLayerVerification cfo contextArg s) = s"
proof (cases "voiceprint s")
  case None
  then show ?thesis by (simp add: multiLayerVerification_def)
next
  case (Some vp)
  with assms have "cfo = None" by simp
  with Some show ?thesis by (simp add: multiLayerVerification_def)
qed

theorem multiLayerVerification_without_input_witness:
  "(voiceprint (initial_state (Some 1)) = None \<or> Some voiced_features = None)
   \<and> isVerified (fst (multiLayerVerification (Some voiced_features) (Some ''wake_word'')
        (initial_state (Some 1)))) = False
   \<and> confidence (fst (multiLayerVerification (Some voiced_features) (Some ''wake_word'')
        (initial_state (Some 1)))) = 0
   \<and> layers (fst (multiLayerVerification (Some voiced_features) (Some ''wake_word'')
        (initial_state (Some 1)))) = []
   \<and> snd (multiLayerVerification (Some voiced_features) (Some ''wake_word'')
        (initial_state (Some 1))) = initial_state (Some 1)"
proof -
  have h: "voiceprint (initial_state (Some 1)) = None \<or> Some voiced_features = None"
    by (simp add: initial_state_def)
  show ?thesis
    using h multiLayerVerification_without_input [OF h, of "Some ''wake_word''"] by simp
qed

subsection \<open>Ducking and the command window\<close>

lemma duckAudio_idem_on: "isDucking s \<Longrightarrow> duckAudio True s = s"
  by (simp add: duckAudio_def split: option.splits)

lemma duckAudio_idem_off: "\<not> isDucking s \<Longrightarrow> duckAudio False s = s"
  by (simp add: duckAudio_def split: option.splits)

lemma duckAudio_twice: "duckAudio True (duckAudio True s) = duckAudio True s"
  by (simp add: duckAudio_def split: option.splits)

text \<open>
  C6. Claimed: \<open>duckAudio(true)\<close> while ducked and \<open>duckAudio(false)\<close> while not ducked
  change nothing, and two consecutive calls of \<open>duckAudio(true)\<close> leave the remembered
  volume equal to the volume in effect before the first. When the audio is ducked
  already before the first of the two calls, the volume in effect then is the ducking
  volume 0.05, and the remembered volume stays the one from before the ducking.
\<close>

theorem duckAudio_twice_counterexample:
  "videoVolume (duckAudio True (initial_state (Some 0.8))) = Some 0.05
   \<and> originalVolume (duckAudio True (duckAudio True (duckAudio True (initial_state (Some 0.8)))))
       = 0.8"
  by (simp add: duckAudio_def initial_state_def duckingVolume_def)

text \<open>
  C6, amended. \<open>duckAudio(true)\<close> while ducked and \<open>duckAudio(false)\<close> while not ducked
  change neither the playback volume, the ducking flag nor the remembered volume; the
  second of two consecutive calls of \<open>duckAudio(true)\<close> changes nothing; and when the
  first of them starts from a state that is not ducked, with a video element, the
  remembered volume afterwards is the volume in effect before the first call.
\<close>

theorem duckAudio_idempotent:
  "(isDucking s \<longrightarrow> duckAudio True s = s)
   \<and> (\<not> isDucking s \<longrightarrow> duckAudio False s = s)
   \<and> duckAudio True (duckAudio True s) = duckAudio True s
   \<and> (\<not> isDucking s \<and> videoVolume s = Some v \<longrightarrow>
        originalVolume (duckAudio True (duckAudio True s)) = v)"
proof -
  have "\<not> isDucking s \<and> videoVolume s = Some v \<longrightarrow> originalVolume (duckAudio True s) = v"
    by (simp add: duckAudio_def)
  then show ?thesis
    by (simp add: duckAudio_idem_on duckAudio_idem_off duckAudio_twice)
qed

theorem duckAudio_idempotent_witness:
  "isDucking (duckAudio True (initial_state (Some 0.8)))
   \<and> duckAudio True (duckAudio True (initial_state (Some 0.8)))
       = duckAudio True (initial_state (Some 0.8))
   \<and> \<not> isDucking (initial_state (Some 0.8))
   \<and> duckAudio False (initial_state (Some 0.8)) = initial_state (Some 0.8)
   \<and> videoVolume (initial_state (Some 0.8)) = Some 0.8
   \<and> originalVolume (duckAudio True (duckAudio True (initial_state (Some 0.8)))) = 0.8"
proof -
  have d: "isDucking (duckAudio True (initial_state (Some 0.8)))"
    by (simp add: duckAudio_def initial_state_def)
  have n: "\<not> isDucking (initial_state (Some 0.8))"
    "videoVolume (initial_state (Some 0.8)) = Some 0.8"
    by (simp_all add: initial_state_def)
  show ?thesis
    using d n duckAudio_idempotent [of "duckAudio True (initial_state (Some 0.8))"]
      duckAudio_idempotent [of "initial_state (Some 0.8)" "0.8"]
    by simp
qed

lemma duckAudio_fields:
  "wakeWordDetected (duckAudio e s) = wakeWordDetected s"
  "wakeWordTimeout (duckAudio e s) = wakeWordTimeout s"
  "timers (duckAudio e s) = timers s"
  "nextTimerId (duckAudio e s) = nextTimerId s"
  "isListening (duckAudio e s) = isListening s"
  "isActive (duckAudio e s) = isActive s"
  "recognition (duckAudio e s) = recognition s"
  "voiceprint (duckAudio e s) = voiceprint s"
  "analyser (duckAudio e s) = analyser s"
  by (simp_all add: duckAudio_def split: option.splits)

lemma duckAudio_restore:
  "map_option (\<lambda>v. if isDucking (duckAudio e s) then originalVolume (duckAudio e s) else v)
     (videoVolume (duckAudio e s)) =
   map_option (\<lambda>v. if isDucking s then originalVolume s else v) (videoVolume s)"
  by (simp add: duckAudio_def split: option.splits)

lemma duckAudio_off_volume:
  "videoVolume (duckAudio False s) =
   map_option (\<lambda>v. if isDucking s then originalVolume s else v) (videoVolume s)"
  by (simp_all add: duckAudio_def split: option.splits)

lemma fresh_handles_duckAudio: "fresh_handles (duckAudio e s) = fresh_handles s"
  by (simp add: fresh_handles_def duckAudio_fields)

lemma window_open_duckAudio: "window_open t v s \<Longrightarrow> window_open t v (duckAudio e s)"
  by (simp add: window_open_def duckAudio_fields duckAudio_restore fresh_handles_duckAudio)

lemma window_open_onstart: "window_open t v s \<Longrightarrow> window_open t v (recognition_onstart s)"
proof -
  assume w: "window_open t v s"
  then have "window_open t v (s\<lparr>isListening := True\<rparr>)"
    by (simp add: window_open_def fresh_handles_def cong: if_cong)
  then show ?thesis
    by (simp add: recognition_onstart_def Let_def window_open_duckAudio)
qed

lemma window_open_setTimeout:
  assumes "window_open t v s"
  shows "window_open t v (snd (setTimeout cb ms s))"
proof -
  from assms have "list_all (\<lambda>x. tid x < nextTimerId s) (timers s)" "t < nextTimerId s"
    by (simp_all add: window_open_def fresh_handles_def)
  then have "list_all (\<lambda>x. tid x < Suc (nextTimerId s)) (timers s)"
    by (simp add: list_all_iff less_Suc_eq)
  with assms show ?thesis
    by (simp add: window_open_def fresh_handles_def setTimeout_def cong: if_cong)
qed

lemma window_open_onend: "window_open t v s \<Longrightarrow> window_open t v (recognition_onend s)"
proof -
  assume w: "window_open t v s"
  then have "window_open t v (s\<lparr>isListening := False, recognition := map_option (\<lambda>r. Ended) (recognition s)\<rparr>)"
    by (simp add: window_open_def fresh_handles_def cong: if_cong)
  then have d: "window_open t v (duckAudio False (s\<lparr>isListening := False, recognition := map_option (\<lambda>r. Ended) (recognition s)\<rparr>))"
    by (rule window_open_duckAudio)
  have r: "\<And>u h. window_open t v u \<Longrightarrow> window_open t v (u\<lparr>restartTimeout := h\<rparr>)"
    by (simp add: window_open_def fresh_handles_def cong: if_cong)
  show ?thesis
    using d window_open_setTimeout [OF d, of CbStartListening 300]
    by (simp add: recognition_onend_def Let_def split_beta r)
qed

lemma window_open_startListening:
  "window_open t v s \<Longrightarrow> window_open t v (startListening throws s)"
proof -
  assume w: "window_open t v s"
  then have a: "window_open t v (s\<lparr>isActive := True\<rparr>)"
    by (simp add: window_open_def fresh_handles_def cong: if_cong)
  have r: "\<And>u h. window_open t v u \<Longrightarrow> window_open t v (u\<lparr>recognition := h\<rparr>)"
    by (simp add: window_open_def fresh_handles_def cong: if_cong)
  show ?thesis
    using w a window_open_setTimeout [OF a, of CbStartListening 1000] r [OF a]
    by (simp add: startListening_def Let_def)
qed

lemma window_open_timeout_fires:
  assumes "window_open t v s" "t' \<noteq> t"
  shows "window_open t v (timeout_fires t' s)"
proof -
  have "filter (\<lambda>x. tid x = t) (filter (\<lambda>x. if tid x = t' then repeating x else True) (timers s))
        = filter (\<lambda>x. if tid x = t' then repeating x else True) (filter (\<lambda>x. tid x = t) (timers s))"
    by (simp add: conj_commute)
  with assms show ?thesis
    by (simp add: window_open_def fresh_handles_def timeout_fires_def list_all_iff cong: if_cong)
qed

lemma window_open_quiet_step:
  assumes w: "window_open t v s"
  shows "window_open t v (quiet_step e s)"
proof (cases e)
  case (RestartTimerFires t' throws)
  show ?thesis
  proof (cases "find (\<lambda>x. tid x = t') (timers s)")
    case None
    with RestartTimerFires w show ?thesis by simp
  next
    case (Some x)
    show ?thesis
    proof (cases "callback x = CbStartListening")
      case False
      with Some RestartTimerFires w show ?thesis by simp
    next
      case True
      from Some have xin: "x \<in> set (timers s)" "tid x = t'"
        by (auto simp: find_Some_iff)
      have "t' \<noteq> t"
      proof
        assume "t' = t"
        with xin have "x \<in> set (filter (\<lambda>x. tid x = t) (timers s))" by simp
        with w have "callback x = CbResetWakeWord" by (simp add: window_open_def)
        with True show False by simp
      qed
      with w have "window_open t v (timeout_fires t' s)" by (rule window_open_timeout_fires)
      then have "window_open t v (startListening throws (timeout_fires t' s))"
        by (rule window_open_startListening)
      with Some True RestartTimerFires show ?thesis by simp
    qed
  qed
qed (simp_all add: w window_open_onstart window_open_onend window_open_startListening recognition_onerror_def)

lemma window_open_fold: "window_open t v s \<Longrightarrow> window_open t v (fold quiet_step es s)"
  by (induction es arbitrary: s) (simp_all add: window_open_quiet_step)

lemma window_open_reset:
  assumes "window_open t v s"
  shows "\<not> wakeWordDetected (resetWakeWord (timeout_fires t s))"
    "wakeWordTimeout (resetWakeWord (timeout_fires t s)) = None"
    "videoVolume (resetWakeWord (timeout_fires t s)) = v"
    "filter (\<lambda>x. tid x = t) (timers (resetWakeWord (timeout_fires t s))) = []"
  using assms
  by (simp_all add: window_open_def resetWakeWord_def timeout_fires_def Let_def duckAudio_fields
        duckAudio_off_volume clearTimeout_def cong: if_cong)

lemma captureVoiceFeatures_plain: "snd (captureVoiceFeatures fr now tr False s) = s"
  by (simp add: captureVoiceFeatures_def Let_def)

lemma processWakeWord_opens_window:
  assumes wake: "str_includes transcript' ''youtube''"
    and nocmd: "trim (replace_first transcript' ''youtube'' '''') = []"
    and verified: "voiceprint s = None \<or>
       isVerified (fst (multiLayerVerification
         (fst (captureVoiceFeatures fr now transcript' False s)) (Some ''wake_word'') s))"
  shows "processWakeWord dispatch fr now fr2 now2 transcript' s =
     (snd (setTimeout CbResetWakeWord wakeWordWindow (duckAudio True (s\<lparr>wakeWordDetected := True\<rparr>))))
       \<lparr>wakeWordTimeout := Some (nextTimerId s)\<rparr>"
proof (cases "voiceprint s")
  case None
  with wake nocmd show ?thesis
    by (simp add: processWakeWord_def Let_def setTimeout_def duckAudio_fields)
next
  case (Some vp)
  with verified have v: "isVerified (fst (multiLayerVerification
         (fst (captureVoiceFeatures fr now transcript' False s)) (Some ''wake_word'') s))"
    by simp
  have c: "captureVoiceFeatures fr now transcript' False s =
      (fst (captureVoiceFeatures fr now transcript' False s), s)"
    using captureVoiceFeatures_plain [of fr now transcript' s] by (simp add: prod_eq_iff)
  have m: "\<And>cfo. multiLayerVerification cfo (Some ''wake_word'') s =
      (fst (multiLayerVerification cfo (Some ''wake_word'') s), s)"
    using mlv_state by (simp add: prod_eq_iff)
  show ?thesis
    unfolding processWakeWord_def
    apply (subst c)
    apply (simp only: Some option.case prod.case Let_def)
    apply (subst m)
    using wake nocmd v
    apply (simp add: setTimeout_def duckAudio_fields)
    done
qed

lemma window_open_entry:
  assumes "fresh_handles s"
  shows "window_open (nextTimerId s)
     (map_option (\<lambda>vol. if isDucking s then originalVolume s else vol) (videoVolume s))
     ((snd (setTimeout CbResetWakeWord wakeWordWindow (duckAudio True (s\<lparr>wakeWordDetected := True\<rparr>))))
       \<lparr>wakeWordTimeout := Some (nextTimerId s)\<rparr>)"
proof -
  from assms have l: "list_all (\<lambda>x. tid x < nextTimerId s) (timers s)"
    by (simp add: fresh_handles_def)
  then have "list_all (\<lambda>x. tid x < Suc (nextTimerId s)) (timers s)"
    by (simp add: list_all_iff less_Suc_eq)
  moreover from l have "filter (\<lambda>x. tid x = nextTimerId s) (timers s) = []"
    by (auto simp add: list_all_iff filter_empty_conv)
  moreover have "map_option (\<lambda>vol. if isDucking (duckAudio True (s\<lparr>wakeWordDetected := True\<rparr>))
           then originalVolume (duckAudio True (s\<lparr>wakeWordDetected := True\<rparr>)) else vol)
         (videoVolume (duckAudio True (s\<lparr>wakeWordDetected := True\<rparr>))) =
       map_option (\<lambda>vol. if isDucking s then originalVolume s else vol) (videoVolume s)"
    by (simp add: duckAudio_restore cong: if_cong)
  ultimately show ?thesis
    by (simp add: window_open_def fresh_handles_def setTimeout_def duckAudio_fields
          wakeWordWindow_def cong: if_cong)
qed

text \<open>
  C5. When \<open>processWakeWord\<close> hears the wake word without a command in the same
  utterance, and the speaker is verified or no voiceprint is stored, it sets the wake-word
  flag and starts a timer of 4000 ms that calls \<open>resetWakeWord\<close>. Through any sequence
  of events without an utterance the timer stays pending, and when it fires its handler
  clears the wake-word flag and the timer handle and leaves playback at the volume it had
  before ducking (the remembered volume, if the audio was ducked already).
\<close>

theorem command_window_times_out:
  assumes wake: "str_includes transcript' ''youtube''"
    and nocmd: "trim (replace_first transcript' ''youtube'' '''') = []"
    and verified: "voiceprint s = None \<or>
       isVerified (fst (multiLayerVerification
         (fst (captureVoiceFeatures fr now transcript' False s)) (Some ''wake_word'') s))"
    and fresh: "fresh_handles s"
  shows
    "let entered = processWakeWord dispatch fr now fr2 now2 transcript' s;
         t = nextTimerId s;
         later = fold quiet_step es entered;
         idle = resetWakeWord (timeout_fires t later)
     in wakeWordDetected entered \<and> wakeWordTimeout entered = Some t
        \<and> filter (\<lambda>x. tid x = t) (timers later) =
             [\<lparr>tid = t, delay = 4000, repeating = False, callback = CbResetWakeWord\<rparr>]
        \<and> \<not> wakeWordDetected idle \<and> wakeWordTimeout idle = None
        \<and> videoVolume idle =
             map_option (\<lambda>vol. if isDucking s then originalVolume s else vol) (videoVolume s)"
proof -
  let ?v = "map_option (\<lambda>vol. if isDucking s then originalVolume s else vol) (videoVolume s)"
  let ?entered = "processWakeWord dispatch fr now fr2 now2 transcript' s"
  have e: "window_open (nextTimerId s) ?v ?entered"
    unfolding processWakeWord_opens_window [OF wake nocmd verified]
    by (rule window_open_entry [OF fresh])
  then have l: "window_open (nextTimerId s) ?v (fold quiet_step es ?entered)"
    by (rule window_open_fold)
  from e have "wakeWordDetected ?entered" "wakeWordTimeout ?entered = Some (nextTimerId s)"
    by (simp_all add: window_open_def)
  moreover from l have "filter (\<lambda>x. tid x = nextTimerId s) (timers (fold quiet_step es ?entered)) =
             [\<lparr>tid = nextTimerId s, delay = 4000, repeating = False, callback = CbResetWakeWord\<rparr>]"
    by (simp add: window_open_def)
  ultimately show ?thesis
    using window_open_reset [OF l] by (simp add: Let_def)
qed

lemma youtube_alone:
  "str_includes ''youtube'' ''youtube''"
  "trim (replace_first ''youtube'' ''youtube'' '''') = []"
  by (simp_all add: starts_with_def trim_def)

theorem command_window_times_out_witness:
  "str_includes ''youtube'' ''youtube''
   \<and> trim (replace_first ''youtube'' ''youtube'' '''') = []
   \<and> voiceprint listening_state = None
   \<and> fresh_handles listening_state
   \<and> videoVolume (processWakeWord no_command quiet_frame 0 quiet_frame 0 ''youtube'' listening_state)
       = Some duckingVolume
   \<and> videoVolume (resetWakeWord (timeout_fires 1
        (fold quiet_step [RecognitionEnds, RestartTimerFires 2 False, RecognitionStarts,
                          RecognitionError ''no-speech'', RecognitionEnds]
           (processWakeWord no_command quiet_frame 0 quiet_frame 0 ''youtube'' listening_state))))
       = Some 0.8
   \<and> \<not> wakeWordDetected (resetWakeWord (timeout_fires 1
        (fold quiet_step [RecognitionEnds, RestartTimerFires 2 False, RecognitionStarts,
                          RecognitionError ''no-speech'', RecognitionEnds]
           (processWakeWord no_command quiet_frame 0 quiet_frame 0 ''youtube'' listening_state))))"
proof -
  have h: "voiceprint listening_state = None"
    "fresh_handles listening_state"
    "nextTimerId listening_state = 1"
    "isDucking listening_state = False"
    "videoVolume listening_state = Some 0.8"
    by (simp_all add: listening_state_def initial_state_def fresh_handles_def)
  have v: "voiceprint listening_state = None \<or>
       isVerified (fst (multiLayerVerification
         (fst (captureVoiceFeatures quiet_frame 0 ''youtube'' False listening_state))
         (Some ''wake_word'') listening_state))"
    using h(1) by simp
  have d: "videoVolume (processWakeWord no_command quiet_frame 0 quiet_frame 0 ''youtube'' listening_state)
       = Some duckingVolume"
    unfolding processWakeWord_opens_window [OF youtube_alone v]
    by (simp add: setTimeout_def duckAudio_def listening_state_def initial_state_def)
  note T = command_window_times_out [OF youtube_alone v h(2),
            where dispatch = no_command
              and es = "[RecognitionEnds, RestartTimerFires 2 False, RecognitionStarts,
                         RecognitionError ''no-speech'', RecognitionEnds]",
            unfolded Let_def h(3) h(4) h(5) if_False option.map]
  from T h(1) h(2) youtube_alone d show ?thesis by blast
qed

subsection \<open>Feature extraction\<close>

lemma map_nth_from: "k \<le> length xs \<Longrightarrow> map ((!) xs) [k..<length xs] = drop k xs"
  by (simp add: list_eq_iff_nth_eq)

lemma fold_index_drop:
  "k \<le> length xs \<Longrightarrow> fold (\<lambda>i. f (xs ! i)) [k..<length xs] acc = fold f (drop k xs) acc"
proof -
  assume k: "k \<le> length xs"
  have "fold f (map ((!) xs) [k..<length xs]) acc = fold (f \<circ> (!) xs) [k..<length xs] acc"
    by (simp add: fold_map)
  then show ?thesis using map_nth_from [OF k] by (simp add: comp_def)
qed

text \<open>The loop of \<open>calculateSpectralFlatness\<close> runs over the bins after the first.\<close>

lemma flatness_as_fold:
  "calculateSpectralFlatness fd =
     (let (g, a, c) = fold (flatness_step (length fd)) (drop 1 fd) (1, 0, 0)
      in if c > 0 then g / (a / real c) else 0)"
proof (cases "fd = []")
  case True
  then show ?thesis by (simp add: calculateSpectralFlatness_def)
next
  case False
  then have k: "1 \<le> length fd" by (cases fd) simp_all
  have "fold (\<lambda>i. flatness_step (length fd) (fd ! i)) [1..<length fd] (1, 0, 0) =
        fold (flatness_step (length fd)) (drop 1 fd) (1, 0, 0)"
    by (rule fold_index_drop [OF k])
  then show ?thesis
    by (simp add: calculateSpectralFlatness_def Let_def split_beta)
qed

lemma flatness_step_cases:
  "flatness_step n x (g, a, c) =
     (if mag x > 0 then (g * mag x powr (1 / real n), a + mag x, c + 1) else (g, a, c))"
  by (simp add: flatness_step_def)

lemma flatness_fold_general:
  "fold (flatness_step n) xs (g, a, c) =
     (g * prod_list (filter (\<lambda>m. m > 0) (map mag xs)) powr (1 / real n),
      a + sum_list (filter (\<lambda>m. m > 0) (map mag xs)),
      c + length (filter (\<lambda>m. m > 0) (map mag xs)))"
proof (induction xs arbitrary: g a c)
  case Nil
  then show ?case by simp
next
  case (Cons x xs)
  have nn: "0 \<le> prod_list (filter (\<lambda>m. m > 0) (map mag xs))"
    by (rule prod_list_nonneg) auto
  show ?case
  proof (cases "mag x > 0")
    case True
    with nn show ?thesis
      by (simp add: flatness_step_cases Cons.IH powr_mult algebra_simps)
  next
    case False
    then show ?thesis by (simp add: flatness_step_cases Cons.IH)
  qed
qed

text \<open>
  What \<open>calculateSpectralFlatness\<close> computes on every frame: over the nonzero magnitudes
  of the bins after the first, their product to the power of one over the number of all
  bins, divided by their arithmetic mean.
\<close>

lemma flatness_in_general:
  "calculateSpectralFlatness fd =
     (let nonzero = filter (\<lambda>m. m > 0) (map mag (drop 1 fd))
      in if length nonzero > 0
         then prod_list nonzero powr (1 / real (length fd))
                / (sum_list nonzero / real (length nonzero))
         else 0)"
  unfolding flatness_as_fold flatness_fold_general
  by (simp add: Let_def)

text \<open>
  With the 128 bins of the analyser (\<open>fftSize = 256\<close>) and a sample rate of 48000 Hz or
  44100 Hz, the bins searched for a pitch peak are those strictly between bin 0 and bin
  1: \<open>extractFundamentalFrequency\<close> returns 0 for every frame.
\<close>

lemma fundamental_frequency_128_bins:
  "length fd = 128 \<Longrightarrow> extractFundamentalFrequency 48000 fd = 0"
  "length fd = 128 \<Longrightarrow> extractFundamentalFrequency 44100 fd = 0"
  by (simp_all add: extractFundamentalFrequency_def Let_def)

lemma mag_values: "mag 0 = 0" "mag 4 = 4"
  by (simp_all add: mag_def)

lemma flatness_step_zero: "flatness_step n 0 acc = acc"
  by (simp add: flatness_step_def mag_values split_beta)

lemma flatness_step_four:
  "flatness_step n 4 (g, a, c) = (g * 4 powr (1 / real n), a + 4, c + 1)"
  by (simp add: flatness_step_def mag_values)

lemma flatness_steps_zero: "(flatness_step n 0 ^^ k) acc = acc"
  by (induction k) (simp_all add: flatness_step_zero)

lemma flatness_steps_four:
  "(flatness_step n 4 ^^ k) (g, a, c) =
     (g * (4 powr (1 / real n)) ^ k, a + 4 * real k, c + k)"
  by (induction k arbitrary: g a c) (simp_all add: flatness_step_four funpow_swap1 algebra_simps)

text \<open>
  C8. Claimed: the spectral flatness is the geometric mean of the nonzero magnitudes
  of the frame divided by their arithmetic mean, and a bin of magnitude zero contributes
  to neither. On 128 bins of which the upper 64 have magnitude 4, both means of the
  nonzero magnitudes are 4 and the claimed flatness is 1; \<open>calculateSpectralFlatness\<close>
  takes the root of the product by the number of all bins, 128, and returns one half.
\<close>

theorem spectral_flatness_upper_band:
  "calculateSpectralFlatness upper_band = 1 / 2 \<and> spec_spectralFlatness upper_band = 1"
proof -
  have d: "drop 1 upper_band = replicate 63 0 @ replicate 64 4"
    by (simp add: upper_band_def)
  have l: "length upper_band = 128" by (simp add: upper_band_def)
  have "(4 powr (1 / 128)) ^ 64 = (4::real) powr (1 / 2)"
    by (simp add: powr_realpow [symmetric] powr_powr)
  also have "\<dots> = 2" by (simp add: powr_half_sqrt)
  finally have p: "(4 powr (1 / 128)) ^ 64 = (2::real)" .
  have code: "calculateSpectralFlatness upper_band = 1 / 2"
    unfolding flatness_as_fold d l
    by (simp add: flatness_steps_zero flatness_steps_four p del: replicate.simps)
  have f: "filter (\<lambda>m. m > 0) (map mag upper_band) = replicate 64 4"
    by (simp add: upper_band_def mag_values)
  have "root 64 ((4::real) ^ 64) = 4"
    by (rule real_root_power_cancel) simp_all
  then have "spec_spectralFlatness upper_band = 1"
    unfolding spec_spectralFlatness_def f
    by (simp add: Let_def prod_list_replicate sum_list_replicate del: replicate.simps)
  with code show ?thesis by simp
qed

text \<open>
  C9. Claimed: two extractions from the same frame always yield the same feature
  vector, without side effects. The vector carries the transcript argument and
  \<open>Date.now()\<close>, so two extractions from one frame at different times differ; and with
  \<open>isEnrollment\<close> set the vector is pushed onto \<open>enrollmentSamples\<close>.
\<close>

theorem captureVoiceFeatures_counterexample:
  "fst (captureVoiceFeatures quiet_frame 1 ''youtube'' False (state_with voiced_voiceprint))
     \<noteq> fst (captureVoiceFeatures quiet_frame 2 ''youtube'' False (state_with voiced_voiceprint))
   \<and> snd (captureVoiceFeatures quiet_frame 1 ''youtube'' True (state_with voiced_voiceprint))
     \<noteq> state_with voiced_voiceprint"
proof -
  have a: "analyser (state_with voiced_voiceprint)"
    "enrollmentSamples (state_with voiced_voiceprint) = []"
    by (simp_all add: state_with_def initial_state_def)
  have "timestamp (extract_features quiet_frame ''youtube'' 1)
        \<noteq> timestamp (extract_features quiet_frame ''youtube'' 2)"
    by (simp add: extract_features_def)
  then have "extract_features quiet_frame ''youtube'' 1 \<noteq> extract_features quiet_frame ''youtube'' 2"
    by metis
  then have one: "fst (captureVoiceFeatures quiet_frame 1 ''youtube'' False
                    (state_with voiced_voiceprint))
     \<noteq> fst (captureVoiceFeatures quiet_frame 2 ''youtube'' False (state_with voiced_voiceprint))"
    by (simp add: captureVoiceFeatures_def a Let_def)
  have "enrollmentSamples (snd (captureVoiceFeatures quiet_frame 1 ''youtube'' True
          (state_with voiced_voiceprint))) \<noteq> enrollmentSamples (state_with voiced_voiceprint)"
    by (simp add: captureVoiceFeatures_def a Let_def)
  then have "snd (captureVoiceFeatures quiet_frame 1 ''youtube'' True (state_with voiced_voiceprint))
     \<noteq> state_with voiced_voiceprint"
    by metis
  with one show ?thesis by simp
qed

text \<open>
  C9, amended. The eleven acoustic features of the vector are a function of the frame
  alone: two calls of \<open>captureVoiceFeatures\<close> on the same frame agree on all of them, in
  any two states that both have or both lack an analyser, at any two times and for any
  transcripts. The two other fields are the transcript argument and the time. The call
  leaves the state as it was when \<open>isEnrollment\<close> is false, and appends the vector to
  \<open>enrollmentSamples\<close>, changing nothing else, when it is true and an analyser exists.
\<close>

theorem captureVoiceFeatures_deterministic:
  "(analyser s1 = analyser s2 \<longrightarrow>
      map_option acoustic.truncate (fst (captureVoiceFeatures fr now1 tr1 e1 s1))
        = map_option acoustic.truncate (fst (captureVoiceFeatures fr now2 tr2 e2 s2)))
   \<and> (analyser s \<longrightarrow>
        map_option transcript (fst (captureVoiceFeatures fr now tr e s)) = Some tr
        \<and> map_option timestamp (fst (captureVoiceFeatures fr now tr e s)) = Some now)
   \<and> snd (captureVoiceFeatures fr now tr False s) = s
   \<and> (analyser s \<longrightarrow>
        snd (captureVoiceFeatures fr now tr True s) =
          s\<lparr>enrollmentSamples := enrollmentSamples s @ [extract_features fr tr now]\<rparr>)"
proof -
  have acoustic: "acoustic.truncate (extract_features fr tr1 now1)
                  = acoustic.truncate (extract_features fr tr2 now2)"
    by (simp add: extract_features_def acoustic.truncate_def)
  have fields: "transcript (extract_features fr tr now) = tr"
    "timestamp (extract_features fr tr now) = now"
    by (simp_all add: extract_features_def)
  show ?thesis
    using acoustic fields by (simp add: captureVoiceFeatures_def Let_def)
qed

theorem captureVoiceFeatures_deterministic_witness:
  "analyser (state_with voiced_voiceprint) = analyser (state_with flat_voiceprint)
   \<and> analyser (state_with flat_voiceprint)
   \<and> map_option acoustic.truncate
        (fst (captureVoiceFeatures quiet_frame 1 ''youtube'' True (state_with voiced_voiceprint)))
      = map_option acoustic.truncate
        (fst (captureVoiceFeatures quiet_frame 2 ''youtube pause'' False (state_with flat_voiceprint)))
   \<and> map_option timestamp
        (fst (captureVoiceFeatures quiet_frame 2 ''youtube pause'' False (state_with flat_voiceprint)))
      = Some 2
   \<and> enrollmentSamples
        (snd (captureVoiceFeatures quiet_frame 2 ''youtube pause'' True (state_with flat_voiceprint)))
      = [extract_features quiet_frame ''youtube pause'' 2]"
proof -
  have a: "analyser (state_with voiced_voiceprint)" "analyser (state_with flat_voiceprint)"
    "enrollmentSamples (state_with flat_voiceprint) = []"
    by (simp_all add: state_with_def initial_state_def)
  note T = captureVoiceFeatures_deterministic
      [where ?s1.0 = "state_with voiced_voiceprint" and ?s2.0 = "state_with flat_voiceprint"
         and s = "state_with flat_voiceprint" and fr = quiet_frame
         and ?now1.0 = 1 and ?now2.0 = 2 and now = 2
         and ?tr1.0 = "''youtube''" and ?tr2.0 = "''youtube pause''" and tr = "''youtube pause''"
         and ?e1.0 = True and ?e2.0 = False and e = False]
  from T a show ?thesis by simp
qed

subsection \<open>Enrollment\<close>

lemma enrollment_started_eq:
  "enrollment_started a =
     (initial_state (Some 1))\<lparr>analyser := a, enrollmentMode := True, trainingPanel := True,
        timers := [\<lparr>tid = 1, delay = 2000, repeating = False, callback = CbContinueEnrollment\<rparr>],
        nextTimerId := 2\<rparr>"
  by (simp add: enrollment_started_def startSpeakerEnrollment_def initializeEnrollment_def
        initial_state_def setTimeout_def Let_def)

lemma awaiting_phrase_eq:
  "awaiting_phrase a =
     (initial_state (Some 1))\<lparr>analyser := a, enrollmentMode := True, trainingPanel := True,
        timers := [\<lparr>tid = 2, delay = 1500, repeating = False,
                    callback = CbStartEnrollmentListening\<rparr>],
        nextTimerId := 3\<rparr>"
  by (simp add: awaiting_phrase_def enrollment_started_eq continueEnrollment_def
        timeout_fires_def enrollmentPhrases_def initial_state_def setTimeout_def)

lemma recording_eq:
  "recording a =
     (initial_state (Some 1))\<lparr>analyser := a, enrollmentMode := True, trainingPanel := True,
        enrollmentRecognition := Some Running, timeLeft := 5,
        enrollmentCountdownInterval := Some 3, enrollmentTimeout := Some 4,
        processingTimeout := Some 5,
        timers := [\<lparr>tid = 3, delay = 1000, repeating = True, callback = CbCountdownTick\<rparr>,
                   \<lparr>tid = 4, delay = 5000, repeating = False, callback = CbEnrollmentTimeout\<rparr>,
                   \<lparr>tid = 5, delay = 8000, repeating = False, callback = CbProcessingTimeout\<rparr>],
        nextTimerId := 6\<rparr>"
  by (simp add: recording_def awaiting_phrase_eq startEnrollmentListening_def enrollment_onstart_def
        timeout_fires_def initial_state_def setTimeout_def setInterval_def Let_def)

lemma cancel_awaiting:
  "cancelTraining (awaiting_phrase a) =
     (initial_state (Some 1))\<lparr>analyser := a, enrollmentMode := False, trainingPanel := True,
        timers := [\<lparr>tid = 2, delay = 1500, repeating = False,
                    callback = CbStartEnrollmentListening\<rparr>,
                   \<lparr>tid = 3, delay = 300, repeating = False, callback = CbRemoveTrainingPanel\<rparr>,
                   \<lparr>tid = 4, delay = 2000, repeating = False, callback = CbUpdateOverlayStatus\<rparr>],
        nextTimerId := 5\<rparr>"
  by (simp add: awaiting_phrase_eq cancelTraining_def hideTrainingPanel_def
        initial_state_def setTimeout_def Let_def)

lemma cancel_recording:
  "cancelTraining (recording a) =
     (initial_state (Some 1))\<lparr>analyser := a, enrollmentMode := False, trainingPanel := True,
        enrollmentRecognition := Some Stopping, timeLeft := 5,
        enrollmentCountdownInterval := Some 3, enrollmentTimeout := Some 4,
        processingTimeout := Some 5,
        timers := [\<lparr>tid = 4, delay = 5000, repeating = False, callback = CbEnrollmentTimeout\<rparr>,
                   \<lparr>tid = 5, delay = 8000, repeating = False, callback = CbProcessingTimeout\<rparr>,
                   \<lparr>tid = 6, delay = 300, repeating = False, callback = CbRemoveTrainingPanel\<rparr>,
                   \<lparr>tid = 7, delay = 2000, repeating = False, callback = CbUpdateOverlayStatus\<rparr>],
        nextTimerId := 8\<rparr>"
  by (simp add: recording_eq cancelTraining_def hideTrainingPanel_def stop_def clearTimeout_def
        initial_state_def setTimeout_def Let_def)

lemma cancelTraining_keeps_timers:
  assumes "x \<in> set (timers s)" "enrollmentCountdownInterval s \<noteq> Some (tid x)"
  shows "x \<in> set (timers (cancelTraining s))"
  using assms
  by (auto simp add: cancelTraining_def hideTrainingPanel_def setTimeout_def clearTimeout_def
        Let_def split: option.splits)

text \<open>
  C3. Claimed: \<open>cancelTraining\<close> clears every pending enrollment timer before it
  changes the state, so that no callback scheduled earlier runs afterwards and restarts
  an enrollment step. It clears the countdown interval only. Cancelled while the first
  phrase is announced, it leaves the timer that starts listening pending, and when that
  timer fires a recognition session is running although enrollment mode is off.
  Cancelled while recording, it leaves the 5 s and the 8 s timeout pending, and the end
  of the session that it stops schedules \<open>continueEnrollment\<close> again.
\<close>

theorem cancelTraining_leaves_timers:
  "\<not> enrollmentMode (cancelTraining (awaiting_phrase True))
   \<and> filter (\<lambda>x. tid x = 2) (timers (cancelTraining (awaiting_phrase True))) =
        [\<lparr>tid = 2, delay = 1500, repeating = False, callback = CbStartEnrollmentListening\<rparr>]
   \<and> enrollmentRecognition
        (startEnrollmentListening False (timeout_fires 2 (cancelTraining (awaiting_phrase True))))
       = Some Running
   \<and> map callback (timers (cancelTraining (recording True))) =
        [CbEnrollmentTimeout, CbProcessingTimeout, CbRemoveTrainingPanel, CbUpdateOverlayStatus]
   \<and> map callback (timers (enrollment_onend (cancelTraining (recording True)))) =
        [CbRemoveTrainingPanel, CbUpdateOverlayStatus, CbContinueEnrollment]"
  by (simp add: cancel_awaiting cancel_recording startEnrollmentListening_def
        enrollment_onend_def clearTimeout_def initial_state_def setTimeout_def Let_def)

lemma lower_char_idem:
  "(let n = (of_char (let m = (of_char c :: nat) in if 65 \<le> m \<and> m \<le> 90 then char_of (m + 32) else c) :: nat)
    in if 65 \<le> n \<and> n \<le> 90 then char_of (n + 32) else (let m = (of_char c :: nat) in if 65 \<le> m \<and> m \<le> 90 then char_of (m + 32) else c))
   = (let m = (of_char c :: nat) in if 65 \<le> m \<and> m \<le> 90 then char_of (m + 32) else c)"
  by (auto simp add: Let_def)

lemma toLowerCase_idem: "toLowerCase (toLowerCase s) = toLowerCase s"
  unfolding toLowerCase_def map_map comp_def
  by (rule map_cong [OF refl]) (rule lower_char_idem)

lemma phrase_similarity_normalised:
  "calculatePhraseSimilarity (toLowerCase spoken) (toLowerCase expected) =
     1 - calculateCER (trim (toLowerCase spoken)) (trim (toLowerCase expected))"
  by (simp add: calculatePhraseSimilarity_def toLowerCase_idem)

lemma clearTimeout_fields:
  "enrollmentSamples (clearTimeout h s) = enrollmentSamples s"
  "enrollmentRecognition (clearTimeout h s) = enrollmentRecognition s"
  "analyser (clearTimeout h s) = analyser s"
  "nextTimerId (clearTimeout h s) = nextTimerId s"
  "enrollmentTimeout (clearTimeout h s) = enrollmentTimeout s"
  "enrollmentCountdownInterval (clearTimeout h s) = enrollmentCountdownInterval s"
  "processingTimeout (clearTimeout h s) = processingTimeout s"
  by (simp_all add: clearTimeout_def split: option.splits)

text \<open>
  C4, amended. When the \<open>onresult\<close> handler evaluates a hypothesis (it has enough
  words or characters, at least two characters, and no result was taken before in the
  session), the phrase is accepted exactly when 1 - CER of the lower-cased, trimmed
  hypothesis against the lower-cased, trimmed phrase is at least 0.8 for a phrase of at
  most three words and at least 0.7 otherwise. In both cases the session is stopped. On
  acceptance, when the analyser exists, exactly one sample (for the hypothesis) is
  appended to the enrollment samples and the advance is scheduled after 800 ms; on
  rejection, and on acceptance without an analyser, no sample is added.
\<close>

theorem enrollment_acceptance:
  assumes inrange: "currentEnrollmentPhrase s < length enrollmentPhrases"
    and gate: "enrollment_gate (trim heard)
                 (toLowerCase (enrollmentPhrases ! currentEnrollmentPhrase s)) s"
  shows
    "let expected = toLowerCase (enrollmentPhrases ! currentEnrollmentPhrase s);
         spoken = toLowerCase (trim heard);
         similarity = 1 - calculateCER (trim spoken) (trim expected);
         required = (if split_ws_length expected \<le> 3 then 0.8 else 0.7);
         s' = enrollment_onresult fr now heard s
     in (enrollmentPhraseMatched s' \<longleftrightarrow> similarity \<ge> required)
        \<and> enrollmentRecognition s' = stop (enrollmentRecognition s)
        \<and> enrollmentSamples s' =
            (if similarity \<ge> required \<and> analyser s
             then enrollmentSamples s @ [extract_features fr (trim heard) now]
             else enrollmentSamples s)
        \<and> last (timers s') =
            (if similarity \<ge> required
             then \<lparr>tid = nextTimerId s, delay = 800, repeating = False,
                   callback = CbAdvanceEnrollment\<rparr>
             else \<lparr>tid = nextTimerId s, delay = 1200, repeating = False,
                   callback = CbContinueEnrollment\<rparr>)"
proof -
  let ?expected = "toLowerCase (enrollmentPhrases ! currentEnrollmentPhrase s)"
  let ?sim = "1 - calculateCER (trim (toLowerCase (trim heard))) (trim ?expected)"
  let ?required = "if split_ws_length ?expected \<le> 3 then 0.8 else (0.7::real)"
  have sim: "calculatePhraseSimilarity (toLowerCase (trim heard)) ?expected = ?sim"
    using phrase_similarity_normalised [of "trim heard" "enrollmentPhrases ! currentEnrollmentPhrase s"]
    by simp
  show ?thesis
  proof (cases "?sim \<ge> ?required")
    case True
    with inrange gate sim show ?thesis
      by (simp add: enrollment_onresult_def Let_def captureVoiceFeatures_def setTimeout_def
            clearTimeout_fields)
  next
    case False
    with inrange gate sim show ?thesis
      by (simp add: enrollment_onresult_def Let_def setTimeout_def clearTimeout_fields)
  qed
qed

lemma first_phrase:
  "toLowerCase (enrollmentPhrases ! 0) = ''youtube pause''"
  "toLowerCase ''youtube pause'' = ''youtube pause''"
  "toLowerCase ''youtube please'' = ''youtube please''"
  by code_simp+

lemma phrase_count: "length enrollmentPhrases = 19"
  by (simp add: enrollmentPhrases_def)

lemma first_phrase_distance:
  "levenshteinDistance ''youtube pause'' ''youtube pause'' = 0"
  "levenshteinDistance ''youtube please'' ''youtube pause'' = 3"
  by code_simp+

lemma first_phrase_words:
  "split_ws_length ''youtube pause'' = 2"
  "split_ws_length ''youtube please'' = 2"
  "trim ''youtube pause'' = ''youtube pause''"
  "trim ''youtube please'' = ''youtube please''"
  by (simp_all add: split_ws_length_def is_space_def trim_def)

lemma recording_fields:
  "currentEnrollmentPhrase (recording a) = 0"
  "hasGotResult (recording a) = False"
  "analyser (recording a) = a"
  "enrollmentSamples (recording a) = []"
  "enrollmentRecognition (recording a) = Some Running"
  "nextTimerId (recording a) = 6"
  by (simp_all add: recording_eq initial_state_def)

lemma recording_gate:
  "currentEnrollmentPhrase (recording a) < length enrollmentPhrases"
  "enrollment_gate (trim ''youtube pause'')
     (toLowerCase (enrollmentPhrases ! currentEnrollmentPhrase (recording a))) (recording a)"
  "enrollment_gate (trim ''youtube please'')
     (toLowerCase (enrollmentPhrases ! currentEnrollmentPhrase (recording a))) (recording a)"
  by (simp_all add: recording_fields first_phrase first_phrase_words enrollment_gate_def
        phrase_count Let_def)

lemma first_phrase_cer:
  "calculateCER ''youtube pause'' ''youtube pause'' = 0"
  "calculateCER ''youtube please'' ''youtube pause'' = 3 / 13"
  by (simp_all add: calculateCER_def first_phrase_distance)

text \<open>
  C4. Claimed: on acceptance exactly one enrollment sample is captured.
  \<open>captureVoiceFeatures\<close> returns \<open>null\<close> and captures nothing when there is no analyser,
  and the phrase is accepted all the same.
\<close>

theorem enrollment_acceptance_counterexample:
  "enrollmentPhraseMatched (enrollment_onresult quiet_frame 9 ''youtube pause'' (recording False))
   \<and> enrollmentSamples (enrollment_onresult quiet_frame 9 ''youtube pause'' (recording False)) = []"
  using recording_gate [of False]
  by (simp add: enrollment_onresult_def Let_def recording_fields first_phrase first_phrase_words
        phrase_similarity_normalised [of "''youtube pause''" "''YouTube pause''", simplified first_phrase, simplified]
        calculatePhraseSimilarity_def first_phrase_cer captureVoiceFeatures_def setTimeout_def
        clearTimeout_fields)

theorem enrollment_acceptance_witness:
  "currentEnrollmentPhrase (recording True) < length enrollmentPhrases
   \<and> enrollment_gate (trim ''youtube pause'')
        (toLowerCase (enrollmentPhrases ! currentEnrollmentPhrase (recording True))) (recording True)
   \<and> enrollmentPhraseMatched (enrollment_onresult quiet_frame 9 ''youtube pause'' (recording True))
   \<and> enrollmentRecognition (enrollment_onresult quiet_frame 9 ''youtube pause'' (recording True))
       = Some Stopping
   \<and> enrollmentSamples (enrollment_onresult quiet_frame 9 ''youtube pause'' (recording True))
       = [extract_features quiet_frame ''youtube pause'' 9]
   \<and> \<not> enrollmentPhraseMatched (enrollment_onresult quiet_frame 9 ''youtube please'' (recording True))
   \<and> enrollmentSamples (enrollment_onresult quiet_frame 9 ''youtube please'' (recording True)) = []"
proof -
  note A = enrollment_acceptance [OF recording_gate(1) recording_gate(2), of True quiet_frame 9,
      unfolded Let_def recording_fields first_phrase first_phrase_words first_phrase_cer]
  note B = enrollment_acceptance [OF recording_gate(1) recording_gate(3), of True quiet_frame 9,
      unfolded Let_def recording_fields first_phrase first_phrase_words first_phrase_cer]
  from A B recording_gate [of True] show ?thesis
    by (simp add: stop_def)
qed

end
